theory Spec2Isabelle
  imports Complex_Main
begin

section \<open>Storage schema\<close>

text \<open>
  The three tables of the schema, one record per row type. A column declared
  \<open>optional\<close> is nullable and holds an \<open>option\<close>; \<open>None\<close> is SQL NULL. A date is
  the millisecond timestamp of a JavaScript \<open>Date\<close>. A \<open>column.number\<close> holds a
  JavaScript number: \<open>score\<close> is only stored and never computed with, so a real stands
  for it; the columns the actions fill from integer inputs hold an integer.
\<close>

type_synonym date = int
type_synonym number = real

record puzzle_template =
  t_id :: string
  t_userId :: "string option"
  t_name :: string
  t_puzzleType :: "string option"
  t_difficulty :: "string option"
  t_description :: "string option"
  t_dataJson :: "string option"
  t_solutionJson :: "string option"
  t_isSystem :: bool
  t_createdAt :: date
  t_updatedAt :: date

record puzzle_session =
  s_id :: string
  s_puzzleTemplateId :: string
  s_userId :: string
  s_startedAt :: date
  s_completedAt :: "date option"
  s_status :: "string option"
  s_score :: "number option"
  s_timeTakenSeconds :: "int option"

record puzzle_attempt =
  a_id :: string
  a_sessionId :: string
  a_attemptIndex :: int
  a_attemptDataJson :: "string option"
  a_isCorrect :: bool
  a_createdAt :: date

section \<open>Storage engine\<close>

text \<open>
  The store holds each table as the list of its rows in insertion order, and the list of
  the statements issued against it so far, so that an action that touches the store is
  told apart from one that does not.
\<close>

datatype table_name = PuzzleTemplatesTable | PuzzleSessionsTable | PuzzleAttemptsTable

datatype statement = SELECT table_name | INSERT table_name | UPDATE table_name

record db =
  PuzzleTemplates :: "puzzle_template list"
  PuzzleSessions :: "puzzle_session list"
  PuzzleAttempts :: "puzzle_attempt list"
  statements :: "statement list"

datatype error_code = UNAUTHORIZED | NOT_FOUND | FORBIDDEN

text \<open>
  What a handler can throw: an \<open>ActionError\<close> with its code and message, the storage
  engine's rejection of an insert whose primary key is already in the table, and the
  \<open>TypeError\<close> of \<open>reduce\<close> on an empty array.
\<close>

datatype error =
    ActionError error_code string
  | UniqueConstraintFailed table_name
  | TypeError

definition issue :: "statement \<Rightarrow> db \<Rightarrow> db" where
  "issue st d = d\<lparr>statements := statements d @ [st]\<rparr>"

text \<open>
  The predicates of a \<open>where\<close> clause. A comparison with a NULL column is not true, and
  the clauses of the actions use no negation, so a row is selected exactly when the
  two-valued reading of the clause holds; a nullable column is compared with \<open>Some v\<close>.
\<close>

definition sql_eq :: "('r \<Rightarrow> 'a) \<Rightarrow> 'a \<Rightarrow> 'r \<Rightarrow> bool" where
  "sql_eq col v = (\<lambda>row. col row = v)"

definition sql_and :: "('r \<Rightarrow> bool) \<Rightarrow> ('r \<Rightarrow> bool) \<Rightarrow> 'r \<Rightarrow> bool" where
  "sql_and p q = (\<lambda>row. p row \<and> q row)"

definition sql_or :: "('r \<Rightarrow> bool) \<Rightarrow> ('r \<Rightarrow> bool) \<Rightarrow> 'r \<Rightarrow> bool" where
  "sql_or p q = (\<lambda>row. p row \<or> q row)"

text \<open>\<open>db.select().from(T).where(w)\<close>: the rows of \<open>T\<close> that satisfy \<open>w\<close>, in table order.\<close>

definition select_PuzzleTemplates ::
  "(puzzle_template \<Rightarrow> bool) \<Rightarrow> db \<Rightarrow> puzzle_template list \<times> db" where
  "select_PuzzleTemplates w d =
     (filter w (PuzzleTemplates d), issue (SELECT PuzzleTemplatesTable) d)"

definition select_PuzzleSessions ::
  "(puzzle_session \<Rightarrow> bool) \<Rightarrow> db \<Rightarrow> puzzle_session list \<times> db" where
  "select_PuzzleSessions w d =
     (filter w (PuzzleSessions d), issue (SELECT PuzzleSessionsTable) d)"

text \<open>
  \<open>.limit(n).offset(k)\<close> on the selected rows. SQLite reads a negative limit as no
  limit and a negative offset as zero.
\<close>

definition limit_offset :: "int \<Rightarrow> int \<Rightarrow> 'r list \<Rightarrow> 'r list" where
  "limit_offset n k rows =
     (let rest = drop (nat k) rows in if n < 0 then rest else take (nat n) rest)"

definition select_PuzzleSessions_page ::
  "(puzzle_session \<Rightarrow> bool) \<Rightarrow> int \<Rightarrow> int \<Rightarrow> db \<Rightarrow> puzzle_session list \<times> db" where
  "select_PuzzleSessions_page w n k d =
     (limit_offset n k (filter w (PuzzleSessions d)), issue (SELECT PuzzleSessionsTable) d)"

text \<open>
  \<open>db.insert(T).values(row)\<close>: \<open>id\<close> is the primary key of every table, so the engine
  rejects a row whose id is already there and changes nothing; otherwise the row is
  appended.
\<close>

definition insert_PuzzleTemplates :: "puzzle_template \<Rightarrow> db \<Rightarrow> (error + unit) \<times> db" where
  "insert_PuzzleTemplates row d =
     (if t_id row \<in> set (map t_id (PuzzleTemplates d))
      then (Inl (UniqueConstraintFailed PuzzleTemplatesTable), issue (INSERT PuzzleTemplatesTable) d)
      else (Inr (), issue (INSERT PuzzleTemplatesTable)
                      (d\<lparr>PuzzleTemplates := PuzzleTemplates d @ [row]\<rparr>)))"

definition insert_PuzzleSessions :: "puzzle_session \<Rightarrow> db \<Rightarrow> (error + unit) \<times> db" where
  "insert_PuzzleSessions row d =
     (if s_id row \<in> set (map s_id (PuzzleSessions d))
      then (Inl (UniqueConstraintFailed PuzzleSessionsTable), issue (INSERT PuzzleSessionsTable) d)
      else (Inr (), issue (INSERT PuzzleSessionsTable)
                      (d\<lparr>PuzzleSessions := PuzzleSessions d @ [row]\<rparr>)))"

definition insert_PuzzleAttempts :: "puzzle_attempt \<Rightarrow> db \<Rightarrow> (error + unit) \<times> db" where
  "insert_PuzzleAttempts row d =
     (if a_id row \<in> set (map a_id (PuzzleAttempts d))
      then (Inl (UniqueConstraintFailed PuzzleAttemptsTable), issue (INSERT PuzzleAttemptsTable) d)
      else (Inr (), issue (INSERT PuzzleAttemptsTable)
                      (d\<lparr>PuzzleAttempts := PuzzleAttempts d @ [row]\<rparr>)))"

text \<open>
  The object given to \<open>.set(...)\<close>. A key that is absent, or whose value is
  \<open>undefined\<close>, is \<open>None\<close> here and leaves its column as it is; a key that is always
  given has no \<open>option\<close>.
\<close>

record template_updates =
  set_name :: "string option"
  set_puzzleType :: "string option"
  set_difficulty :: "string option"
  set_description :: "string option"
  set_dataJson :: "string option"
  set_solutionJson :: "string option"
  set_updatedAt :: date

definition assign :: "'a option \<Rightarrow> 'a option \<Rightarrow> 'a option" where
  "assign v old = (case v of None \<Rightarrow> old | Some x \<Rightarrow> Some x)"

definition set_template :: "template_updates \<Rightarrow> puzzle_template \<Rightarrow> puzzle_template" where
  "set_template u row =
     row\<lparr>t_name := (case set_name u of None \<Rightarrow> t_name row | Some x \<Rightarrow> x),
         t_puzzleType := assign (set_puzzleType u) (t_puzzleType row),
         t_difficulty := assign (set_difficulty u) (t_difficulty row),
         t_description := assign (set_description u) (t_description row),
         t_dataJson := assign (set_dataJson u) (t_dataJson row),
         t_solutionJson := assign (set_solutionJson u) (t_solutionJson row),
         t_updatedAt := set_updatedAt u\<rparr>"

definition update_PuzzleTemplates ::
  "template_updates \<Rightarrow> (puzzle_template \<Rightarrow> bool) \<Rightarrow> db \<Rightarrow> db" where
  "update_PuzzleTemplates u w d =
     issue (UPDATE PuzzleTemplatesTable)
       (d\<lparr>PuzzleTemplates := map (\<lambda>row. if w row then set_template u row else row)
                                 (PuzzleTemplates d)\<rparr>)"

record session_updates =
  set_status :: string
  set_score :: "number option"
  set_timeTakenSeconds :: "int option"
  set_completedAt :: date

definition set_session :: "session_updates \<Rightarrow> puzzle_session \<Rightarrow> puzzle_session" where
  "set_session u row =
     row\<lparr>s_status := Some (set_status u),
         s_score := assign (set_score u) (s_score row),
         s_timeTakenSeconds := assign (set_timeTakenSeconds u) (s_timeTakenSeconds row),
         s_completedAt := Some (set_completedAt u)\<rparr>"

definition update_PuzzleSessions ::
  "session_updates \<Rightarrow> (puzzle_session \<Rightarrow> bool) \<Rightarrow> db \<Rightarrow> db" where
  "update_PuzzleSessions u w d =
     issue (UPDATE PuzzleSessionsTable)
       (d\<lparr>PuzzleSessions := map (\<lambda>row. if w row then set_session u row else row)
                                (PuzzleSessions d)\<rparr>)"

text \<open>The primary keys of the schema: no two rows of a table share an id.\<close>

definition primary_keys :: "db \<Rightarrow> bool" where
  "primary_keys d =
     (distinct (map t_id (PuzzleTemplates d)) \<and>
      distinct (map s_id (PuzzleSessions d)) \<and>
      distinct (map a_id (PuzzleAttempts d)))"

section \<open>Request context and environment\<close>

text \<open>
  \<open>context.locals\<close> may be undefined and so may its \<open>user\<close>; of the user only the id is
  read. The environment of one handler call gives what \<open>crypto.randomUUID()\<close> and
  \<open>new Date()\<close> return in it: no handler calls either more than once.
\<close>

record user =
  u_id :: string

record app_locals =
  l_user :: "user option"

record action_context =
  ctx_locals :: "app_locals option"

record env =
  randomUUID :: string
  new_Date :: date

text \<open>\<open>locals?.user\<close>\<close>

definition locals_user :: "action_context \<Rightarrow> user option" where
  "locals_user ctx = (case ctx_locals ctx of None \<Rightarrow> None | Some l \<Rightarrow> l_user l)"

definition requireUser :: "action_context \<Rightarrow> error + user" where
  "requireUser ctx =
     (case locals_user ctx of
        None \<Rightarrow> Inl (ActionError UNAUTHORIZED ''You must be signed in to perform this action.'')
      | Some u \<Rightarrow> Inr u)"

text \<open>JavaScript truthiness of an optional string: undefined and the empty string are falsy.\<close>

fun truthy :: "string option \<Rightarrow> bool" where
  "truthy None = False"
| "truthy (Some s) = (s \<noteq> [])"

text \<open>
  \<open>Array.prototype.reduce\<close> with no initial value: the first element starts the
  accumulation, and an empty array is a TypeError.
\<close>

fun reduce :: "('a \<Rightarrow> 'a \<Rightarrow> 'a) \<Rightarrow> 'a list \<Rightarrow> 'a option" where
  "reduce f [] = None"
| "reduce f (x # xs) = Some (foldl f x xs)"

text \<open>The envelope every action returns on success.\<close>

record 'a action_result =
  success :: bool
  data :: 'a

section \<open>Input schemas\<close>

text \<open>
  The input of a handler is what its schema returns for the caller's input. Each
  schema is a function from the input as given (a key with a default may be absent) to
  the parsed input, \<open>None\<close> when the schema rejects it. An integer field holds an
  integer already, and a field of an enumeration one of its values.
\<close>

definition min1 :: "string \<Rightarrow> bool" where
  "min1 s = (1 \<le> length s)"

definition optional :: "('a \<Rightarrow> bool) \<Rightarrow> 'a option \<Rightarrow> bool" where
  "optional p v = (case v of None \<Rightarrow> True | Some x \<Rightarrow> p x)"

definition positive :: "int \<Rightarrow> bool" where
  "positive n = (0 < n)"

definition default :: "'a \<Rightarrow> 'a option \<Rightarrow> 'a" where
  "default v given = (case given of None \<Rightarrow> v | Some x \<Rightarrow> x)"

record create_input =
  ci_name :: string
  ci_puzzleType :: "string option"
  ci_difficulty :: "string option"
  ci_description :: "string option"
  ci_dataJson :: "string option"
  ci_solutionJson :: "string option"

definition createPuzzleTemplate_input :: "create_input \<Rightarrow> create_input option" where
  "createPuzzleTemplate_input given =
     (if min1 (ci_name given) \<and> optional min1 (ci_puzzleType given) \<and>
         optional min1 (ci_difficulty given)
      then Some given else None)"

record update_input =
  ui_id :: string
  ui_name :: "string option"
  ui_puzzleType :: "string option"
  ui_difficulty :: "string option"
  ui_description :: "string option"
  ui_dataJson :: "string option"
  ui_solutionJson :: "string option"

definition updatePuzzleTemplate_input :: "update_input \<Rightarrow> update_input option" where
  "updatePuzzleTemplate_input given =
     (if min1 (ui_id given) \<and> optional min1 (ui_name given) \<and>
         optional min1 (ui_puzzleType given) \<and> optional min1 (ui_difficulty given)
      then Some given else None)"

record list_templates_given =
  ltg_includeSystem :: "bool option"

record list_templates_input =
  lt_includeSystem :: bool

definition listPuzzleTemplates_input :: "list_templates_given \<Rightarrow> list_templates_input option" where
  "listPuzzleTemplates_input given =
     Some \<lparr>lt_includeSystem = default True (ltg_includeSystem given)\<rparr>"

record start_input =
  st_puzzleTemplateId :: string

definition startPuzzleSession_input :: "start_input \<Rightarrow> start_input option" where
  "startPuzzleSession_input given =
     (if min1 (st_puzzleTemplateId given) then Some given else None)"

datatype completion_status = completed | abandoned

fun status_text :: "completion_status \<Rightarrow> string" where
  "status_text completed = ''completed''"
| "status_text abandoned = ''abandoned''"

record complete_given =
  cpg_sessionId :: string
  cpg_status :: "completion_status option"
  cpg_score :: "number option"
  cpg_timeTakenSeconds :: "int option"

record complete_input =
  cp_sessionId :: string
  cp_status :: completion_status
  cp_score :: "number option"
  cp_timeTakenSeconds :: "int option"

definition completePuzzleSession_input :: "complete_given \<Rightarrow> complete_input option" where
  "completePuzzleSession_input given =
     (if min1 (cpg_sessionId given) \<and> optional positive (cpg_timeTakenSeconds given)
      then Some \<lparr>cp_sessionId = cpg_sessionId given,
                 cp_status = default completed (cpg_status given),
                 cp_score = cpg_score given,
                 cp_timeTakenSeconds = cpg_timeTakenSeconds given\<rparr>
      else None)"

record attempt_given =
  rag_sessionId :: string
  rag_attemptIndex :: int
  rag_attemptDataJson :: "string option"
  rag_isCorrect :: "bool option"

record attempt_input =
  ra_sessionId :: string
  ra_attemptIndex :: int
  ra_attemptDataJson :: "string option"
  ra_isCorrect :: bool

definition recordPuzzleAttempt_input :: "attempt_given \<Rightarrow> attempt_input option" where
  "recordPuzzleAttempt_input given =
     (if min1 (rag_sessionId given) \<and> positive (rag_attemptIndex given)
      then Some \<lparr>ra_sessionId = rag_sessionId given,
                 ra_attemptIndex = rag_attemptIndex given,
                 ra_attemptDataJson = rag_attemptDataJson given,
                 ra_isCorrect = default False (rag_isCorrect given)\<rparr>
      else None)"

record list_sessions_given =
  lsg_puzzleTemplateId :: "string option"
  lsg_status :: "string option"
  lsg_page :: "int option"
  lsg_pageSize :: "int option"

record list_sessions_input =
  ls_puzzleTemplateId :: "string option"
  ls_status :: "string option"
  ls_page :: int
  ls_pageSize :: int

definition listPuzzleSessions_input :: "list_sessions_given \<Rightarrow> list_sessions_input option" where
  "listPuzzleSessions_input given =
     (if optional positive (lsg_page given) \<and>
         optional (\<lambda>n. positive n \<and> n \<le> 100) (lsg_pageSize given)
      then Some \<lparr>ls_puzzleTemplateId = lsg_puzzleTemplateId given,
                 ls_status = lsg_status given,
                 ls_page = default 1 (lsg_page given),
                 ls_pageSize = default 20 (lsg_pageSize given)\<rparr>
      else None)"

section \<open>Action handlers\<close>

text \<open>
  A handler takes its parsed input, the request context and the store, and returns
  what it returns or throws together with the store it leaves. The handlers that call
  \<open>crypto.randomUUID()\<close> or \<open>new Date()\<close> take the environment of the call too.
\<close>

record id_data =
  d_id :: string

record templates_data =
  tl_items :: "puzzle_template list"
  tl_total :: int

record started_data =
  started_id :: string
  started_puzzleTemplateId :: string

record sessions_data =
  sl_items :: "puzzle_session list"
  sl_total :: int
  sl_page :: int

definition createPuzzleTemplate ::
  "env \<Rightarrow> create_input \<Rightarrow> action_context \<Rightarrow> db \<Rightarrow> (error + id_data action_result) \<times> db" where
  "createPuzzleTemplate e input ctx d =
     (case requireUser ctx of
        Inl err \<Rightarrow> (Inl err, d)
      | Inr user \<Rightarrow>
          let now = new_Date e;
              id = randomUUID e
          in (case insert_PuzzleTemplates
                     \<lparr>t_id = id,
                      t_userId = Some (u_id user),
                      t_name = ci_name input,
                      t_puzzleType = ci_puzzleType input,
                      t_difficulty = ci_difficulty input,
                      t_description = ci_description input,
                      t_dataJson = ci_dataJson input,
                      t_solutionJson = ci_solutionJson input,
                      t_isSystem = False,
                      t_createdAt = now,
                      t_updatedAt = now\<rparr> d of
                (Inl err, d') \<Rightarrow> (Inl err, d')
              | (Inr _, d') \<Rightarrow> (Inr \<lparr>success = True, data = \<lparr>d_id = id\<rparr>\<rparr>, d')))"

definition updatePuzzleTemplate ::
  "env \<Rightarrow> update_input \<Rightarrow> action_context \<Rightarrow> db \<Rightarrow> (error + id_data action_result) \<times> db" where
  "updatePuzzleTemplate e input ctx d =
     (case requireUser ctx of
        Inl err \<Rightarrow> (Inl err, d)
      | Inr user \<Rightarrow>
          (case select_PuzzleTemplates (sql_eq t_id (ui_id input)) d of
             ([], d') \<Rightarrow> (Inl (ActionError NOT_FOUND ''Puzzle template not found.''), d')
           | (existing # _, d') \<Rightarrow>
               if t_userId existing \<noteq> Some (u_id user) \<or> t_isSystem existing
               then (Inl (ActionError FORBIDDEN ''You cannot modify this puzzle template.''), d')
               else
                 let updates =
                       \<lparr>set_name = (if truthy (ui_name input) then ui_name input else None),
                        set_puzzleType =
                          (if truthy (ui_puzzleType input) then ui_puzzleType input else None),
                        set_difficulty =
                          (if truthy (ui_difficulty input) then ui_difficulty input else None),
                        set_description =
                          (if truthy (ui_description input) then ui_description input else None),
                        set_dataJson =
                          (if truthy (ui_dataJson input) then ui_dataJson input else None),
                        set_solutionJson =
                          (if truthy (ui_solutionJson input) then ui_solutionJson input else None),
                        set_updatedAt = new_Date e\<rparr>
                 in (Inr \<lparr>success = True, data = \<lparr>d_id = ui_id input\<rparr>\<rparr>,
                     update_PuzzleTemplates updates (sql_eq t_id (ui_id input)) d')))"

text \<open>
  In the callback of \<open>reduce\<close>, \<open>prev\<close> is a condition object and so always truthy: the
  callback combines the two conditions every time.
\<close>

definition listPuzzleTemplates ::
  "list_templates_input \<Rightarrow> action_context \<Rightarrow> db \<Rightarrow> (error + templates_data action_result) \<times> db" where
  "listPuzzleTemplates input ctx d =
     (case requireUser ctx of
        Inl err \<Rightarrow> (Inl err, d)
      | Inr user \<Rightarrow>
          let conditions =
                [sql_eq t_userId (Some (u_id user))] @
                (if lt_includeSystem input then [sql_eq t_isSystem True] else [])
          in (case reduce (\<lambda>prev current. sql_or prev current) conditions of
                None \<Rightarrow> (Inl TypeError, d)
              | Some wh \<Rightarrow>
                  (case select_PuzzleTemplates wh d of
                     (templates, d') \<Rightarrow>
                       (Inr \<lparr>success = True,
                             data = \<lparr>tl_items = templates,
                                     tl_total = int (length templates)\<rparr>\<rparr>, d'))))"

definition startPuzzleSession ::
  "env \<Rightarrow> start_input \<Rightarrow> action_context \<Rightarrow> db \<Rightarrow> (error + started_data action_result) \<times> db" where
  "startPuzzleSession e input ctx d =
     (case requireUser ctx of
        Inl err \<Rightarrow> (Inl err, d)
      | Inr user \<Rightarrow>
          (case select_PuzzleTemplates
                  (sql_and (sql_eq t_id (st_puzzleTemplateId input))
                     (sql_or (sql_eq t_userId (Some (u_id user))) (sql_eq t_isSystem True))) d of
             ([], d') \<Rightarrow> (Inl (ActionError NOT_FOUND ''Puzzle template not found.''), d')
           | (template # _, d') \<Rightarrow>
               let id = randomUUID e;
                   now = new_Date e
               in (case insert_PuzzleSessions
                          \<lparr>s_id = id,
                           s_puzzleTemplateId = t_id template,
                           s_userId = u_id user,
                           s_startedAt = now,
                           s_completedAt = None,
                           s_status = Some ''in-progress'',
                           s_score = None,
                           s_timeTakenSeconds = None\<rparr> d' of
                     (Inl err, d'') \<Rightarrow> (Inl err, d'')
                   | (Inr _, d'') \<Rightarrow>
                       (Inr \<lparr>success = True,
                             data = \<lparr>started_id = id,
                                     started_puzzleTemplateId = t_id template\<rparr>\<rparr>, d''))))"

definition completePuzzleSession ::
  "env \<Rightarrow> complete_input \<Rightarrow> action_context \<Rightarrow> db \<Rightarrow> (error + id_data action_result) \<times> db" where
  "completePuzzleSession e input ctx d =
     (case requireUser ctx of
        Inl err \<Rightarrow> (Inl err, d)
      | Inr user \<Rightarrow>
          (case select_PuzzleSessions
                  (sql_and (sql_eq s_id (cp_sessionId input)) (sql_eq s_userId (u_id user))) d of
             ([], d') \<Rightarrow> (Inl (ActionError NOT_FOUND ''Puzzle session not found.''), d')
           | (session # _, d') \<Rightarrow>
               (Inr \<lparr>success = True, data = \<lparr>d_id = cp_sessionId input\<rparr>\<rparr>,
                update_PuzzleSessions
                  \<lparr>set_status = status_text (cp_status input),
                   set_score = cp_score input,
                   set_timeTakenSeconds = cp_timeTakenSeconds input,
                   set_completedAt = new_Date e\<rparr>
                  (sql_eq s_id (cp_sessionId input)) d')))"

definition recordPuzzleAttempt ::
  "env \<Rightarrow> attempt_input \<Rightarrow> action_context \<Rightarrow> db \<Rightarrow> (error + id_data action_result) \<times> db" where
  "recordPuzzleAttempt e input ctx d =
     (case requireUser ctx of
        Inl err \<Rightarrow> (Inl err, d)
      | Inr user \<Rightarrow>
          (case select_PuzzleSessions
                  (sql_and (sql_eq s_id (ra_sessionId input)) (sql_eq s_userId (u_id user))) d of
             ([], d') \<Rightarrow> (Inl (ActionError NOT_FOUND ''Puzzle session not found.''), d')
           | (session # _, d') \<Rightarrow>
               let id = randomUUID e
               in (case insert_PuzzleAttempts
                          \<lparr>a_id = id,
                           a_sessionId = ra_sessionId input,
                           a_attemptIndex = ra_attemptIndex input,
                           a_attemptDataJson = ra_attemptDataJson input,
                           a_isCorrect = ra_isCorrect input,
                           a_createdAt = new_Date e\<rparr> d' of
                     (Inl err, d'') \<Rightarrow> (Inl err, d'')
                   | (Inr _, d'') \<Rightarrow> (Inr \<lparr>success = True, data = \<lparr>d_id = id\<rparr>\<rparr>, d''))))"

definition listPuzzleSessions ::
  "list_sessions_input \<Rightarrow> action_context \<Rightarrow> db \<Rightarrow> (error + sessions_data action_result) \<times> db" where
  "listPuzzleSessions input ctx d =
     (case requireUser ctx of
        Inl err \<Rightarrow> (Inl err, d)
      | Inr user \<Rightarrow>
          let filters =
                [sql_eq s_userId (u_id user)] @
                (if truthy (ls_puzzleTemplateId input)
                 then (case ls_puzzleTemplateId input of
                         Some puzzleTemplateId \<Rightarrow> [sql_eq s_puzzleTemplateId puzzleTemplateId]
                       | None \<Rightarrow> [])
                 else []) @
                (if truthy (ls_status input) then [sql_eq s_status (ls_status input)] else [])
          in (case reduce (\<lambda>prev current. sql_and prev current) filters of
                None \<Rightarrow> (Inl TypeError, d)
              | Some wh \<Rightarrow>
                  let offset = (ls_page input - 1) * ls_pageSize input
                  in (case select_PuzzleSessions_page wh (ls_pageSize input) offset d of
                        (sessions, d') \<Rightarrow>
                          (Inr \<lparr>success = True,
                                data = \<lparr>sl_items = sessions,
                                        sl_total = int (length sessions),
                                        sl_page = ls_page input\<rparr>\<rparr>, d'))))"

section \<open>Seed\<close>

text \<open>The seed inserts the one built-in template into the store it is given.\<close>

definition seed :: "env \<Rightarrow> db \<Rightarrow> (error + unit) \<times> db" where
  \<open>seed e d =
     (let now = new_Date e
      in insert_PuzzleTemplates
           \<lparr>t_id = ''system-puzzle-sample'',
            t_userId = None,
            t_name = ''Starter Puzzle'',
            t_puzzleType = Some ''logic-grid'',
            t_difficulty = Some ''easy'',
            t_description = Some ''A sample puzzle included with the starter app.'',
            t_dataJson = Some ''{"prompt":"Match the pets to their owners."}'',
            t_solutionJson = Some ''{"answer":"sample-solution"}'',
            t_isSystem = True,
            t_createdAt = now,
            t_updatedAt = now\<rparr> d)\<close>

section \<open>Outcomes and example data\<close>

text \<open>The code of the \<open>ActionError\<close> a handler call threw, if it threw one.\<close>

fun code_of :: "error \<Rightarrow> error_code option" where
  "code_of (ActionError c m) = Some c"
| "code_of (UniqueConstraintFailed t) = None"
| "code_of TypeError = None"

definition raises :: "error_code \<Rightarrow> (error + 'a) \<times> db \<Rightarrow> bool" where
  "raises c r = (case fst r of Inl err \<Rightarrow> code_of err = Some c | Inr v \<Rightarrow> False)"

definition succeeds :: "(error + 'a) \<times> db \<Rightarrow> bool" where
  "succeeds r = (case fst r of Inl err \<Rightarrow> False | Inr v \<Rightarrow> True)"

text \<open>
  A store to run the handlers on: the seeded template, one template each of two users,
  four sessions and one attempt.
\<close>

definition empty_db :: db where
  "empty_db = \<lparr>PuzzleTemplates = [], PuzzleSessions = [], PuzzleAttempts = [], statements = []\<rparr>"

definition example_db :: db where
  "example_db =
     (snd (seed \<lparr>randomUUID = [], new_Date = 1700000000000\<rparr> empty_db))
       \<lparr>PuzzleTemplates :=
          PuzzleTemplates (snd (seed \<lparr>randomUUID = [], new_Date = 1700000000000\<rparr> empty_db)) @
          [\<lparr>t_id = ''tpl-alice'', t_userId = Some ''alice'', t_name = ''Test'',
            t_puzzleType = Some ''sudoku'', t_difficulty = None,
            t_description = Some ''A test puzzle'',
            t_dataJson = None, t_solutionJson = None, t_isSystem = False,
            t_createdAt = 1700000100000, t_updatedAt = 1700000100000\<rparr>,
           \<lparr>t_id = ''tpl-bob'', t_userId = Some ''bob'', t_name = ''Riddle'',
            t_puzzleType = None, t_difficulty = Some ''hard'', t_description = None,
            t_dataJson = None, t_solutionJson = None, t_isSystem = False,
            t_createdAt = 1700000200000, t_updatedAt = 1700000200000\<rparr>],
        PuzzleSessions :=
          [\<lparr>s_id = ''ses-1'', s_puzzleTemplateId = ''tpl-alice'', s_userId = ''alice'',
            s_startedAt = 1700000300000, s_completedAt = None,
            s_status = Some ''in-progress'', s_score = None, s_timeTakenSeconds = None\<rparr>,
           \<lparr>s_id = ''ses-2'', s_puzzleTemplateId = ''system-puzzle-sample'', s_userId = ''alice'',
            s_startedAt = 1700000310000, s_completedAt = Some 1700000350000,
            s_status = Some ''completed'', s_score = Some 10, s_timeTakenSeconds = Some 40\<rparr>,
           \<lparr>s_id = ''ses-3'', s_puzzleTemplateId = ''tpl-bob'', s_userId = ''bob'',
            s_startedAt = 1700000320000, s_completedAt = None,
            s_status = Some ''in-progress'', s_score = None, s_timeTakenSeconds = None\<rparr>,
           \<lparr>s_id = ''ses-4'', s_puzzleTemplateId = ''tpl-alice'', s_userId = ''alice'',
            s_startedAt = 1700000330000, s_completedAt = Some 1700000340000,
            s_status = Some ''abandoned'', s_score = None, s_timeTakenSeconds = None\<rparr>],
        PuzzleAttempts :=
          [\<lparr>a_id = ''att-1'', a_sessionId = ''ses-2'', a_attemptIndex = 1,
            a_attemptDataJson = Some ''[1,2]'', a_isCorrect = True,
            a_createdAt = 1700000345000\<rparr>]\<rparr>"

definition example_env :: env where
  "example_env =
     \<lparr>randomUUID = ''1b4e28ba-2fa1-41d2-883f-0016d3cca427'', new_Date = 1700000500000\<rparr>"

definition alice :: action_context where
  "alice = \<lparr>ctx_locals = Some \<lparr>l_user = Some \<lparr>u_id = ''alice''\<rparr>\<rparr>\<rparr>"

definition bob :: action_context where
  "bob = \<lparr>ctx_locals = Some \<lparr>l_user = Some \<lparr>u_id = ''bob''\<rparr>\<rparr>\<rparr>"

definition anonymous :: action_context where
  "anonymous = \<lparr>ctx_locals = Some \<lparr>l_user = None\<rparr>\<rparr>"

section \<open>requireUser\<close>

lemma requireUser_Some: "locals_user ctx = Some u \<Longrightarrow> requireUser ctx = Inr u"
  by (simp add: requireUser_def)

lemma requireUser_None:
  "locals_user ctx = None \<Longrightarrow>
   requireUser ctx = Inl (ActionError UNAUTHORIZED ''You must be signed in to perform this action.'')"
  by (simp add: requireUser_def)

text \<open>
  C1. A request context with no authenticated user: each of the seven handlers, on every
  input, throws the \<open>UNAUTHORIZED\<close> error of \<open>requireUser\<close> and leaves the store as it
  was, the list of issued statements included: no statement is issued, neither a read
  nor a write.
\<close>

theorem unauthenticated_no_storage_access:
  assumes "locals_user ctx = None"
  shows "createPuzzleTemplate e ci ctx d =
           (Inl (ActionError UNAUTHORIZED ''You must be signed in to perform this action.''), d) \<and>
         updatePuzzleTemplate e ui ctx d =
           (Inl (ActionError UNAUTHORIZED ''You must be signed in to perform this action.''), d) \<and>
         listPuzzleTemplates lt ctx d =
           (Inl (ActionError UNAUTHORIZED ''You must be signed in to perform this action.''), d) \<and>
         startPuzzleSession e st ctx d =
           (Inl (ActionError UNAUTHORIZED ''You must be signed in to perform this action.''), d) \<and>
         completePuzzleSession e cp ctx d =
           (Inl (ActionError UNAUTHORIZED ''You must be signed in to perform this action.''), d) \<and>
         recordPuzzleAttempt e ra ctx d =
           (Inl (ActionError UNAUTHORIZED ''You must be signed in to perform this action.''), d) \<and>
         listPuzzleSessions ls ctx d =
           (Inl (ActionError UNAUTHORIZED ''You must be signed in to perform this action.''), d)"
  using requireUser_None [OF assms]
  by (simp add: createPuzzleTemplate_def updatePuzzleTemplate_def listPuzzleTemplates_def
      startPuzzleSession_def completePuzzleSession_def recordPuzzleAttempt_def
      listPuzzleSessions_def)

theorem unauthenticated_no_storage_access_witness:
  "locals_user anonymous = None \<and>
   createPuzzleTemplate example_env
     \<lparr>ci_name = ''Test'', ci_puzzleType = Some ''sudoku'', ci_difficulty = None,
      ci_description = None, ci_dataJson = None, ci_solutionJson = None\<rparr> anonymous example_db =
     (Inl (ActionError UNAUTHORIZED ''You must be signed in to perform this action.''), example_db) \<and>
   updatePuzzleTemplate example_env
     \<lparr>ui_id = ''tpl-alice'', ui_name = Some ''Hack'', ui_puzzleType = None, ui_difficulty = None,
      ui_description = None, ui_dataJson = None, ui_solutionJson = None\<rparr> anonymous example_db =
     (Inl (ActionError UNAUTHORIZED ''You must be signed in to perform this action.''), example_db) \<and>
   listPuzzleTemplates \<lparr>lt_includeSystem = True\<rparr> anonymous example_db =
     (Inl (ActionError UNAUTHORIZED ''You must be signed in to perform this action.''), example_db) \<and>
   startPuzzleSession example_env \<lparr>st_puzzleTemplateId = ''system-puzzle-sample''\<rparr>
     anonymous example_db =
     (Inl (ActionError UNAUTHORIZED ''You must be signed in to perform this action.''), example_db) \<and>
   completePuzzleSession example_env
     \<lparr>cp_sessionId = ''ses-1'', cp_status = completed, cp_score = Some 7,
      cp_timeTakenSeconds = Some 30\<rparr> anonymous example_db =
     (Inl (ActionError UNAUTHORIZED ''You must be signed in to perform this action.''), example_db) \<and>
   recordPuzzleAttempt example_env
     \<lparr>ra_sessionId = ''ses-1'', ra_attemptIndex = 1, ra_attemptDataJson = None,
      ra_isCorrect = False\<rparr> anonymous example_db =
     (Inl (ActionError UNAUTHORIZED ''You must be signed in to perform this action.''), example_db) \<and>
   listPuzzleSessions
     \<lparr>ls_puzzleTemplateId = None, ls_status = None, ls_page = 1, ls_pageSize = 20\<rparr>
     anonymous example_db =
     (Inl (ActionError UNAUTHORIZED ''You must be signed in to perform this action.''), example_db)"
proof -
  have anon: "locals_user anonymous = None"
    by (simp add: locals_user_def anonymous_def)
  from anon unauthenticated_no_storage_access [OF anon] show ?thesis
    by simp
qed

section \<open>The example store\<close>

lemmas example_db_simps =
  example_db_def seed_def insert_PuzzleTemplates_def empty_db_def issue_def

lemma primary_keys_example_db: "primary_keys example_db"
  by (simp add: primary_keys_def example_db_def seed_def insert_PuzzleTemplates_def
      empty_db_def issue_def)

lemma locals_user_alice: "locals_user alice = Some \<lparr>u_id = ''alice''\<rparr>"
  by (simp add: locals_user_def alice_def)

lemma locals_user_bob: "locals_user bob = Some \<lparr>u_id = ''bob''\<rparr>"
  by (simp add: locals_user_def bob_def)

section \<open>updatePuzzleTemplate: errors\<close>

lemma filter_key_unique:
  "distinct (map k xs) \<Longrightarrow> x \<in> set xs \<Longrightarrow> filter (\<lambda>r. k r = k x) xs = [x]"
proof (induction xs)
  case Nil
  then show ?case by simp
next
  case (Cons y ys)
  show ?case
  proof (cases "y = x")
    case True
    with Cons.prems have "k x \<notin> k ` set ys" by simp
    then have "\<forall>y \<in> set ys. k y \<noteq> k x" by (metis imageI)
    then have "filter (\<lambda>r. k r = k x) ys = []"
      by (simp add: filter_empty_conv)
    with True show ?thesis by simp
  next
    case False
    with Cons.prems have "x \<in> set ys" and "distinct (map k ys)" and "k y \<notin> k ` set ys"
      by simp_all
    then have "k y \<noteq> k x" by (metis imageI)
    with Cons.IH \<open>x \<in> set ys\<close> \<open>distinct (map k ys)\<close> show ?thesis by simp
  qed
qed

lemma updatePuzzleTemplate_absent:
  assumes "locals_user ctx = Some u"
    and "\<not> (\<exists>t \<in> set (PuzzleTemplates d). t_id t = ui_id input)"
  shows "updatePuzzleTemplate e input ctx d =
           (Inl (ActionError NOT_FOUND ''Puzzle template not found.''),
            d\<lparr>statements := statements d @ [SELECT PuzzleTemplatesTable]\<rparr>)"
proof -
  from assms(2) have "filter (sql_eq t_id (ui_id input)) (PuzzleTemplates d) = []"
    by (auto simp: filter_empty_conv sql_eq_def)
  with requireUser_Some [OF assms(1)] show ?thesis
    by (simp add: updatePuzzleTemplate_def select_PuzzleTemplates_def issue_def)
qed

lemma updatePuzzleTemplate_present:
  assumes "locals_user ctx = Some u" and "distinct (map t_id (PuzzleTemplates d))"
    and "t \<in> set (PuzzleTemplates d)" and "t_id t = ui_id input"
  shows "updatePuzzleTemplate e input ctx d =
           (if t_userId t \<noteq> Some (u_id u) \<or> t_isSystem t
            then (Inl (ActionError FORBIDDEN ''You cannot modify this puzzle template.''),
                  d\<lparr>statements := statements d @ [SELECT PuzzleTemplatesTable]\<rparr>)
            else (Inr \<lparr>success = True, data = \<lparr>d_id = ui_id input\<rparr>\<rparr>,
                  update_PuzzleTemplates
                    \<lparr>set_name = (if truthy (ui_name input) then ui_name input else None),
                     set_puzzleType =
                       (if truthy (ui_puzzleType input) then ui_puzzleType input else None),
                     set_difficulty =
                       (if truthy (ui_difficulty input) then ui_difficulty input else None),
                     set_description =
                       (if truthy (ui_description input) then ui_description input else None),
                     set_dataJson =
                       (if truthy (ui_dataJson input) then ui_dataJson input else None),
                     set_solutionJson =
                       (if truthy (ui_solutionJson input) then ui_solutionJson input else None),
                     set_updatedAt = new_Date e\<rparr>
                    (sql_eq t_id (ui_id input))
                    (d\<lparr>statements := statements d @ [SELECT PuzzleTemplatesTable]\<rparr>)))"
proof -
  have "filter (sql_eq t_id (ui_id input)) (PuzzleTemplates d) = [t]"
    using filter_key_unique [OF assms(2) assms(3)] assms(4) by (simp add: sql_eq_def)
  with requireUser_Some [OF assms(1)] show ?thesis
    by (simp add: updatePuzzleTemplate_def select_PuzzleTemplates_def issue_def Let_def)
qed

text \<open>
  C2. For an authenticated caller and a store that respects the primary keys,
  \<open>updatePuzzleTemplate\<close> throws \<open>NOT_FOUND\<close> exactly when no template has the given id,
  and \<open>FORBIDDEN\<close> exactly when the template with that id is not owned by the caller or
  has \<open>isSystem\<close> set, whoever its \<open>userId\<close> names. Whenever the call does not succeed,
  the rows of all three tables are as before.
\<close>

theorem updatePuzzleTemplate_errors:
  assumes "locals_user ctx = Some u" and "primary_keys d"
  shows "(raises NOT_FOUND (updatePuzzleTemplate e input ctx d) \<longleftrightarrow>
            \<not> (\<exists>t \<in> set (PuzzleTemplates d). t_id t = ui_id input)) \<and>
         (raises FORBIDDEN (updatePuzzleTemplate e input ctx d) \<longleftrightarrow>
            (\<exists>t \<in> set (PuzzleTemplates d). t_id t = ui_id input \<and>
               (t_userId t \<noteq> Some (u_id u) \<or> t_isSystem t))) \<and>
         (\<not> succeeds (updatePuzzleTemplate e input ctx d) \<longrightarrow>
            PuzzleTemplates (snd (updatePuzzleTemplate e input ctx d)) = PuzzleTemplates d \<and>
            PuzzleSessions (snd (updatePuzzleTemplate e input ctx d)) = PuzzleSessions d \<and>
            PuzzleAttempts (snd (updatePuzzleTemplate e input ctx d)) = PuzzleAttempts d)"
proof (cases "\<exists>t \<in> set (PuzzleTemplates d). t_id t = ui_id input")
  case False
  with updatePuzzleTemplate_absent [OF assms(1), of d input e] show ?thesis
    by (auto simp: raises_def succeeds_def)
next
  case True
  then obtain t where t: "t \<in> set (PuzzleTemplates d)" "t_id t = ui_id input" by blast
  from assms(2) have dist: "distinct (map t_id (PuzzleTemplates d))"
    by (simp add: primary_keys_def)
  have only: "t' = t" if "t' \<in> set (PuzzleTemplates d)" "t_id t' = ui_id input" for t'
    using dist t that by (metis distinct_map inj_onD)
  note eq = updatePuzzleTemplate_present [OF assms(1) dist t, of e]
  show ?thesis
  proof (cases "t_userId t \<noteq> Some (u_id u) \<or> t_isSystem t")
    case forbidden: True
    with eq have "updatePuzzleTemplate e input ctx d =
        (Inl (ActionError FORBIDDEN ''You cannot modify this puzzle template.''),
         d\<lparr>statements := statements d @ [SELECT PuzzleTemplatesTable]\<rparr>)"
      by simp
    with t forbidden show ?thesis
      by (auto simp: raises_def succeeds_def)
  next
    case allowed: False
    with eq have "succeeds (updatePuzzleTemplate e input ctx d)"
      and "\<not> raises NOT_FOUND (updatePuzzleTemplate e input ctx d)"
      and "\<not> raises FORBIDDEN (updatePuzzleTemplate e input ctx d)"
      by (simp_all add: succeeds_def raises_def)
    moreover from allowed only
    have "\<not> (\<exists>t \<in> set (PuzzleTemplates d). t_id t = ui_id input \<and>
               (t_userId t \<noteq> Some (u_id u) \<or> t_isSystem t))"
      by blast
    ultimately show ?thesis using t by blast
  qed
qed

theorem updatePuzzleTemplate_errors_witness:
  "locals_user bob = Some \<lparr>u_id = ''bob''\<rparr> \<and> primary_keys example_db \<and>
   raises NOT_FOUND (updatePuzzleTemplate example_env
     \<lparr>ui_id = ''tpl-none'', ui_name = Some ''Hack'', ui_puzzleType = None, ui_difficulty = None,
      ui_description = None, ui_dataJson = None, ui_solutionJson = None\<rparr> bob example_db) \<and>
   raises FORBIDDEN (updatePuzzleTemplate example_env
     \<lparr>ui_id = ''tpl-alice'', ui_name = Some ''Hack'', ui_puzzleType = None, ui_difficulty = None,
      ui_description = None, ui_dataJson = None, ui_solutionJson = None\<rparr> bob example_db) \<and>
   raises FORBIDDEN (updatePuzzleTemplate example_env
     \<lparr>ui_id = ''system-puzzle-sample'', ui_name = Some ''Hack'', ui_puzzleType = None,
      ui_difficulty = None, ui_description = None, ui_dataJson = None,
      ui_solutionJson = None\<rparr> bob example_db) \<and>
   PuzzleTemplates (snd (updatePuzzleTemplate example_env
     \<lparr>ui_id = ''tpl-alice'', ui_name = Some ''Hack'', ui_puzzleType = None, ui_difficulty = None,
      ui_description = None, ui_dataJson = None, ui_solutionJson = None\<rparr> bob example_db)) =
     PuzzleTemplates example_db"
  (is "_ \<and> _ \<and> raises NOT_FOUND ?none \<and> raises FORBIDDEN ?other \<and> raises FORBIDDEN ?system \<and> _")
proof -
  note spec = updatePuzzleTemplate_errors [OF locals_user_bob primary_keys_example_db,
      where e = example_env]
  have none: "raises NOT_FOUND ?none"
    using spec [where input = "\<lparr>ui_id = ''tpl-none'', ui_name = Some ''Hack'',
      ui_puzzleType = None, ui_difficulty = None, ui_description = None, ui_dataJson = None,
      ui_solutionJson = None\<rparr>"]
    by (simp add: example_db_simps)
  have other: "raises FORBIDDEN ?other"
    using spec [where input = "\<lparr>ui_id = ''tpl-alice'', ui_name = Some ''Hack'',
      ui_puzzleType = None, ui_difficulty = None, ui_description = None, ui_dataJson = None,
      ui_solutionJson = None\<rparr>"]
    by (simp add: example_db_simps)
  have system: "raises FORBIDDEN ?system"
    using spec [where input = "\<lparr>ui_id = ''system-puzzle-sample'', ui_name = Some ''Hack'',
      ui_puzzleType = None, ui_difficulty = None, ui_description = None, ui_dataJson = None,
      ui_solutionJson = None\<rparr>"]
    by (simp add: example_db_simps)
  from other have "\<not> succeeds ?other"
    by (simp add: raises_def succeeds_def split: sum.splits)
  with spec [where input = "\<lparr>ui_id = ''tpl-alice'', ui_name = Some ''Hack'',
      ui_puzzleType = None, ui_difficulty = None, ui_description = None, ui_dataJson = None,
      ui_solutionJson = None\<rparr>"]
  have "PuzzleTemplates (snd ?other) = PuzzleTemplates example_db" by blast
  with none other system locals_user_bob primary_keys_example_db show ?thesis by blast
qed

section \<open>startPuzzleSession\<close>

lemma startPuzzleSession_hidden:
  assumes "locals_user ctx = Some u"
    and "\<not> (\<exists>t \<in> set (PuzzleTemplates d).
               t_id t = st_puzzleTemplateId input \<and> (t_userId t = Some (u_id u) \<or> t_isSystem t))"
  shows "startPuzzleSession e input ctx d =
           (Inl (ActionError NOT_FOUND ''Puzzle template not found.''),
            d\<lparr>statements := statements d @ [SELECT PuzzleTemplatesTable]\<rparr>)"
proof -
  from assms(2)
  have "filter (sql_and (sql_eq t_id (st_puzzleTemplateId input))
                  (sql_or (sql_eq t_userId (Some (u_id u))) (sql_eq t_isSystem True)))
          (PuzzleTemplates d) = []"
    by (auto simp: filter_empty_conv sql_eq_def sql_and_def sql_or_def)
  with requireUser_Some [OF assms(1)] show ?thesis
    by (simp add: startPuzzleSession_def select_PuzzleTemplates_def issue_def)
qed

lemma startPuzzleSession_visible:
  assumes "locals_user ctx = Some u"
    and "\<exists>t \<in> set (PuzzleTemplates d).
           t_id t = st_puzzleTemplateId input \<and> (t_userId t = Some (u_id u) \<or> t_isSystem t)"
  shows "startPuzzleSession e input ctx d =
           (if randomUUID e \<in> s_id ` set (PuzzleSessions d)
            then (Inl (UniqueConstraintFailed PuzzleSessionsTable),
                  d\<lparr>statements := statements d @
                       [SELECT PuzzleTemplatesTable, INSERT PuzzleSessionsTable]\<rparr>)
            else (Inr \<lparr>success = True,
                       data = \<lparr>started_id = randomUUID e,
                               started_puzzleTemplateId = st_puzzleTemplateId input\<rparr>\<rparr>,
                  d\<lparr>PuzzleSessions := PuzzleSessions d @
                       [\<lparr>s_id = randomUUID e,
                         s_puzzleTemplateId = st_puzzleTemplateId input,
                         s_userId = u_id u,
                         s_startedAt = new_Date e,
                         s_completedAt = None,
                         s_status = Some ''in-progress'',
                         s_score = None,
                         s_timeTakenSeconds = None\<rparr>],
                     statements := statements d @
                       [SELECT PuzzleTemplatesTable, INSERT PuzzleSessionsTable]\<rparr>))"
proof -
  let ?w = "sql_and (sql_eq t_id (st_puzzleTemplateId input))
              (sql_or (sql_eq t_userId (Some (u_id u))) (sql_eq t_isSystem True))"
  from assms(2) have "filter ?w (PuzzleTemplates d) \<noteq> []"
    by (auto simp: filter_empty_conv sql_eq_def sql_and_def sql_or_def)
  then obtain t ts where rows: "filter ?w (PuzzleTemplates d) = t # ts"
    by (cases "filter ?w (PuzzleTemplates d)") auto
  then have "t \<in> set (filter ?w (PuzzleTemplates d))" by simp
  then have "t_id t = st_puzzleTemplateId input"
    by (simp add: sql_eq_def sql_and_def)
  with rows requireUser_Some [OF assms(1)] show ?thesis
    by (simp add: startPuzzleSession_def select_PuzzleTemplates_def insert_PuzzleSessions_def
        issue_def Let_def)
qed

text \<open>
  C3. For an authenticated caller, \<open>startPuzzleSession\<close> throws \<open>NOT_FOUND\<close> exactly when
  no template has the given id and is owned by the caller or a system template; it never
  throws \<open>FORBIDDEN\<close>, so another user's private template is \<open>NOT_FOUND\<close> too. It succeeds
  exactly when such a template exists and the generated id is not yet the id of a
  session, and then it returns the generated id with the template's id and appends one
  session to the table: owned by the caller, on that template, \<open>in-progress\<close>, started
  now, with no \<open>completedAt\<close>, score or time taken. Nothing else of the tables changes.
\<close>

theorem startPuzzleSession_spec:
  assumes "locals_user ctx = Some u"
  shows "(raises NOT_FOUND (startPuzzleSession e input ctx d) \<longleftrightarrow>
            \<not> (\<exists>t \<in> set (PuzzleTemplates d).
                 t_id t = st_puzzleTemplateId input \<and>
                 (t_userId t = Some (u_id u) \<or> t_isSystem t))) \<and>
         \<not> raises FORBIDDEN (startPuzzleSession e input ctx d) \<and>
         (succeeds (startPuzzleSession e input ctx d) \<longleftrightarrow>
            (\<exists>t \<in> set (PuzzleTemplates d).
                 t_id t = st_puzzleTemplateId input \<and>
                 (t_userId t = Some (u_id u) \<or> t_isSystem t)) \<and>
            randomUUID e \<notin> s_id ` set (PuzzleSessions d)) \<and>
         (succeeds (startPuzzleSession e input ctx d) \<longrightarrow>
            startPuzzleSession e input ctx d =
              (Inr \<lparr>success = True,
                    data = \<lparr>started_id = randomUUID e,
                            started_puzzleTemplateId = st_puzzleTemplateId input\<rparr>\<rparr>,
               d\<lparr>PuzzleSessions := PuzzleSessions d @
                    [\<lparr>s_id = randomUUID e,
                      s_puzzleTemplateId = st_puzzleTemplateId input,
                      s_userId = u_id u,
                      s_startedAt = new_Date e,
                      s_completedAt = None,
                      s_status = Some ''in-progress'',
                      s_score = None,
                      s_timeTakenSeconds = None\<rparr>],
                  statements := statements d @
                    [SELECT PuzzleTemplatesTable, INSERT PuzzleSessionsTable]\<rparr>))"
proof (cases "\<exists>t \<in> set (PuzzleTemplates d).
                 t_id t = st_puzzleTemplateId input \<and>
                 (t_userId t = Some (u_id u) \<or> t_isSystem t)")
  case False
  with startPuzzleSession_hidden [OF assms, of d input e] show ?thesis
    by (simp add: raises_def succeeds_def)
next
  case True
  with startPuzzleSession_visible [OF assms, of d input e] show ?thesis
    by (simp add: raises_def succeeds_def)
qed

theorem startPuzzleSession_spec_witness:
  "locals_user alice = Some \<lparr>u_id = ''alice''\<rparr> \<and>
   raises NOT_FOUND
     (startPuzzleSession example_env \<lparr>st_puzzleTemplateId = ''tpl-bob''\<rparr> alice example_db) \<and>
   startPuzzleSession example_env \<lparr>st_puzzleTemplateId = ''system-puzzle-sample''\<rparr>
       alice example_db =
     (Inr \<lparr>success = True,
           data = \<lparr>started_id = ''1b4e28ba-2fa1-41d2-883f-0016d3cca427'',
                   started_puzzleTemplateId = ''system-puzzle-sample''\<rparr>\<rparr>,
      example_db\<lparr>PuzzleSessions := PuzzleSessions example_db @
                    [\<lparr>s_id = ''1b4e28ba-2fa1-41d2-883f-0016d3cca427'',
                      s_puzzleTemplateId = ''system-puzzle-sample'',
                      s_userId = ''alice'',
                      s_startedAt = 1700000500000,
                      s_completedAt = None,
                      s_status = Some ''in-progress'',
                      s_score = None,
                      s_timeTakenSeconds = None\<rparr>],
                  statements := statements example_db @
                    [SELECT PuzzleTemplatesTable, INSERT PuzzleSessionsTable]\<rparr>)"
  (is "_ \<and> raises NOT_FOUND ?hidden \<and> ?started")
proof -
  note spec = startPuzzleSession_spec [OF locals_user_alice, where e = example_env
      and d = example_db]
  have hidden: "raises NOT_FOUND ?hidden"
    using spec [where input = "\<lparr>st_puzzleTemplateId = ''tpl-bob''\<rparr>"]
    by (simp add: example_db_simps)
  have "succeeds (startPuzzleSession example_env
          \<lparr>st_puzzleTemplateId = ''system-puzzle-sample''\<rparr> alice example_db)"
    using spec [where input = "\<lparr>st_puzzleTemplateId = ''system-puzzle-sample''\<rparr>"]
    by (simp add: example_db_simps example_env_def)
  with spec [where input = "\<lparr>st_puzzleTemplateId = ''system-puzzle-sample''\<rparr>"]
  have started: ?started
    by (simp add: example_env_def)
  from hidden started locals_user_alice show ?thesis by blast
qed

section \<open>completePuzzleSession\<close>

lemma completePuzzleSession_absent:
  assumes "locals_user ctx = Some u"
    and "\<not> (\<exists>s \<in> set (PuzzleSessions d). s_id s = cp_sessionId input \<and> s_userId s = u_id u)"
  shows "completePuzzleSession e input ctx d =
           (Inl (ActionError NOT_FOUND ''Puzzle session not found.''),
            d\<lparr>statements := statements d @ [SELECT PuzzleSessionsTable]\<rparr>)"
proof -
  from assms(2)
  have "filter (sql_and (sql_eq s_id (cp_sessionId input)) (sql_eq s_userId (u_id u)))
          (PuzzleSessions d) = []"
    by (auto simp: filter_empty_conv sql_eq_def sql_and_def)
  with requireUser_Some [OF assms(1)] show ?thesis
    by (simp add: completePuzzleSession_def select_PuzzleSessions_def issue_def)
qed

lemma completePuzzleSession_present:
  assumes "locals_user ctx = Some u"
    and "\<exists>s \<in> set (PuzzleSessions d). s_id s = cp_sessionId input \<and> s_userId s = u_id u"
  shows "completePuzzleSession e input ctx d =
           (Inr \<lparr>success = True, data = \<lparr>d_id = cp_sessionId input\<rparr>\<rparr>,
            d\<lparr>PuzzleSessions :=
                 map (\<lambda>s. if s_id s = cp_sessionId input
                           then s\<lparr>s_status := Some (status_text (cp_status input)),
                                  s_score := (case cp_score input of
                                                None \<Rightarrow> s_score s | Some v \<Rightarrow> Some v),
                                  s_timeTakenSeconds :=
                                    (case cp_timeTakenSeconds input of
                                       None \<Rightarrow> s_timeTakenSeconds s | Some v \<Rightarrow> Some v),
                                  s_completedAt := Some (new_Date e)\<rparr>
                           else s)
                   (PuzzleSessions d),
               statements := statements d @
                 [SELECT PuzzleSessionsTable, UPDATE PuzzleSessionsTable]\<rparr>)"
proof -
  let ?w = "sql_and (sql_eq s_id (cp_sessionId input)) (sql_eq s_userId (u_id u))"
  from assms(2) have "filter ?w (PuzzleSessions d) \<noteq> []"
    by (auto simp: filter_empty_conv sql_eq_def sql_and_def)
  then obtain s ss where "filter ?w (PuzzleSessions d) = s # ss"
    by (cases "filter ?w (PuzzleSessions d)") auto
  with requireUser_Some [OF assms(1)] show ?thesis
    by (simp add: completePuzzleSession_def select_PuzzleSessions_def update_PuzzleSessions_def
        set_session_def assign_def issue_def sql_eq_def)
qed

text \<open>
  C4, amended. For an authenticated caller, \<open>completePuzzleSession\<close> throws
  \<open>NOT_FOUND\<close> exactly when no session has the given id and the caller as its user, and
  succeeds otherwise, whatever the status of the session is: a completed or abandoned
  session is completed again. On success the session with the given id gets the
  requested status (the text of \<open>completed\<close> or \<open>abandoned\<close>) and \<open>completedAt = now\<close>,
  for \<open>abandoned\<close> as for \<open>completed\<close>. Its \<open>score\<close> becomes the score of the input
  when the input gives one and stays as it was when the input gives none, and likewise
  its \<open>timeTakenSeconds\<close>. Every other row is as before. The schema fills in
  \<open>completed\<close> when the caller gives no status.
\<close>

theorem completePuzzleSession_spec:
  assumes "locals_user ctx = Some u"
  shows "(raises NOT_FOUND (completePuzzleSession e input ctx d) \<longleftrightarrow>
            \<not> (\<exists>s \<in> set (PuzzleSessions d).
                 s_id s = cp_sessionId input \<and> s_userId s = u_id u)) \<and>
         (succeeds (completePuzzleSession e input ctx d) \<longleftrightarrow>
            (\<exists>s \<in> set (PuzzleSessions d).
                 s_id s = cp_sessionId input \<and> s_userId s = u_id u)) \<and>
         (succeeds (completePuzzleSession e input ctx d) \<longrightarrow>
            completePuzzleSession e input ctx d =
              (Inr \<lparr>success = True, data = \<lparr>d_id = cp_sessionId input\<rparr>\<rparr>,
               d\<lparr>PuzzleSessions :=
                    map (\<lambda>s. if s_id s = cp_sessionId input
                              then s\<lparr>s_status := Some (status_text (cp_status input)),
                                     s_score := (case cp_score input of
                                                   None \<Rightarrow> s_score s | Some v \<Rightarrow> Some v),
                                     s_timeTakenSeconds :=
                                       (case cp_timeTakenSeconds input of
                                          None \<Rightarrow> s_timeTakenSeconds s | Some v \<Rightarrow> Some v),
                                     s_completedAt := Some (new_Date e)\<rparr>
                              else s)
                      (PuzzleSessions d),
                  statements := statements d @
                    [SELECT PuzzleSessionsTable, UPDATE PuzzleSessionsTable]\<rparr>)) \<and>
         (\<forall>given parsed. completePuzzleSession_input given = Some parsed \<longrightarrow>
            cp_status parsed = (case cpg_status given of None \<Rightarrow> completed | Some v \<Rightarrow> v))"
proof -
  have dflt: "\<forall>given parsed. completePuzzleSession_input given = Some parsed \<longrightarrow>
      cp_status parsed = (case cpg_status given of None \<Rightarrow> completed | Some v \<Rightarrow> v)"
    by (auto simp: completePuzzleSession_input_def default_def split: if_splits)
  show ?thesis
  proof (cases "\<exists>s \<in> set (PuzzleSessions d).
                   s_id s = cp_sessionId input \<and> s_userId s = u_id u")
    case False
    with completePuzzleSession_absent [OF assms, of d input e] dflt show ?thesis
      by (simp add: raises_def succeeds_def)
  next
    case True
    with completePuzzleSession_present [OF assms, of d input e] dflt show ?thesis
      by (simp add: raises_def succeeds_def)
  qed
qed

theorem completePuzzleSession_spec_witness:
  "locals_user alice = Some \<lparr>u_id = ''alice''\<rparr> \<and>
   raises NOT_FOUND
     (completePuzzleSession example_env
        \<lparr>cp_sessionId = ''ses-3'', cp_status = completed, cp_score = Some 7,
         cp_timeTakenSeconds = Some 30\<rparr> alice example_db) \<and>
   succeeds
     (completePuzzleSession example_env
        \<lparr>cp_sessionId = ''ses-2'', cp_status = abandoned, cp_score = None,
         cp_timeTakenSeconds = Some 55\<rparr> alice example_db) \<and>
   PuzzleSessions (snd
     (completePuzzleSession example_env
        \<lparr>cp_sessionId = ''ses-2'', cp_status = abandoned, cp_score = None,
         cp_timeTakenSeconds = Some 55\<rparr> alice example_db)) =
     [\<lparr>s_id = ''ses-1'', s_puzzleTemplateId = ''tpl-alice'', s_userId = ''alice'',
       s_startedAt = 1700000300000, s_completedAt = None,
       s_status = Some ''in-progress'', s_score = None, s_timeTakenSeconds = None\<rparr>,
      \<lparr>s_id = ''ses-2'', s_puzzleTemplateId = ''system-puzzle-sample'', s_userId = ''alice'',
       s_startedAt = 1700000310000, s_completedAt = Some 1700000500000,
       s_status = Some ''abandoned'', s_score = Some 10, s_timeTakenSeconds = Some 55\<rparr>,
      \<lparr>s_id = ''ses-3'', s_puzzleTemplateId = ''tpl-bob'', s_userId = ''bob'',
       s_startedAt = 1700000320000, s_completedAt = None,
       s_status = Some ''in-progress'', s_score = None, s_timeTakenSeconds = None\<rparr>,
      \<lparr>s_id = ''ses-4'', s_puzzleTemplateId = ''tpl-alice'', s_userId = ''alice'',
       s_startedAt = 1700000330000, s_completedAt = Some 1700000340000,
       s_status = Some ''abandoned'', s_score = None, s_timeTakenSeconds = None\<rparr>] \<and>
   completePuzzleSession_input
     \<lparr>cpg_sessionId = ''ses-1'', cpg_status = None, cpg_score = None,
      cpg_timeTakenSeconds = None\<rparr> =
     Some \<lparr>cp_sessionId = ''ses-1'', cp_status = completed, cp_score = None,
           cp_timeTakenSeconds = None\<rparr>"
  (is "_ \<and> raises NOT_FOUND ?foreign \<and> succeeds ?again \<and> ?rows \<and> ?dflt")
proof -
  note spec = completePuzzleSession_spec [OF locals_user_alice, where e = example_env
      and d = example_db]
  have foreign: "raises NOT_FOUND ?foreign"
    using spec [where input = "\<lparr>cp_sessionId = ''ses-3'', cp_status = completed,
      cp_score = Some 7, cp_timeTakenSeconds = Some 30\<rparr>"]
    by (simp add: example_db_simps)
  have again: "succeeds ?again"
    using spec [where input = "\<lparr>cp_sessionId = ''ses-2'', cp_status = abandoned,
      cp_score = None, cp_timeTakenSeconds = Some 55\<rparr>"]
    by (simp add: example_db_simps)
  note result = spec [where input = "\<lparr>cp_sessionId = ''ses-2'', cp_status = abandoned,
      cp_score = None, cp_timeTakenSeconds = Some 55\<rparr>",
      THEN conjunct2, THEN conjunct2, THEN conjunct1, rule_format, OF again]
  have rows: ?rows
    unfolding result by (simp add: example_db_simps example_env_def)
  have dflt: ?dflt
    by (simp add: completePuzzleSession_input_def min1_def optional_def default_def)
  from foreign again rows dflt locals_user_alice show ?thesis by blast
qed

text \<open>
  C4, the claim as first written. It has the successful call set \<open>score\<close> and
  \<open>timeTakenSeconds\<close> from the input. Alice completes her session \<open>ses-2\<close> again, as
  abandoned, and gives neither a score nor a time: the call succeeds, the status and
  \<open>completedAt\<close> are written, and the row keeps the score 10 and the time 40 of the first
  completion, which are not the values of the input.
\<close>

theorem completePuzzleSession_omitted_counterexample:
  "fst (completePuzzleSession example_env
          \<lparr>cp_sessionId = ''ses-2'', cp_status = abandoned, cp_score = None,
           cp_timeTakenSeconds = None\<rparr> alice example_db) =
     Inr \<lparr>success = True, data = \<lparr>d_id = ''ses-2''\<rparr>\<rparr> \<and>
   PuzzleSessions (snd (completePuzzleSession example_env
          \<lparr>cp_sessionId = ''ses-2'', cp_status = abandoned, cp_score = None,
           cp_timeTakenSeconds = None\<rparr> alice example_db)) ! 1 =
     \<lparr>s_id = ''ses-2'', s_puzzleTemplateId = ''system-puzzle-sample'', s_userId = ''alice'',
      s_startedAt = 1700000310000, s_completedAt = Some 1700000500000,
      s_status = Some ''abandoned'', s_score = Some 10, s_timeTakenSeconds = Some 40\<rparr> \<and>
   s_score (PuzzleSessions (snd (completePuzzleSession example_env
          \<lparr>cp_sessionId = ''ses-2'', cp_status = abandoned, cp_score = None,
           cp_timeTakenSeconds = None\<rparr> alice example_db)) ! 1) \<noteq>
     cp_score \<lparr>cp_sessionId = ''ses-2'', cp_status = abandoned, cp_score = None,
           cp_timeTakenSeconds = None\<rparr> \<and>
   s_timeTakenSeconds (PuzzleSessions (snd (completePuzzleSession example_env
          \<lparr>cp_sessionId = ''ses-2'', cp_status = abandoned, cp_score = None,
           cp_timeTakenSeconds = None\<rparr> alice example_db)) ! 1) \<noteq>
     cp_timeTakenSeconds \<lparr>cp_sessionId = ''ses-2'', cp_status = abandoned, cp_score = None,
           cp_timeTakenSeconds = None\<rparr>"
proof -
  have owned: "\<exists>s \<in> set (PuzzleSessions example_db).
      s_id s = cp_sessionId \<lparr>cp_sessionId = ''ses-2'', cp_status = abandoned, cp_score = None,
           cp_timeTakenSeconds = None\<rparr> \<and> s_userId s = u_id \<lparr>u_id = ''alice''\<rparr>"
    by (simp add: example_db_simps)
  note call = completePuzzleSession_present [OF locals_user_alice owned, of example_env]
  show ?thesis
    unfolding call by (simp add: example_db_simps example_env_def)
qed

section \<open>recordPuzzleAttempt\<close>

lemma recordPuzzleAttempt_absent:
  assumes "locals_user ctx = Some u"
    and "\<not> (\<exists>s \<in> set (PuzzleSessions d). s_id s = ra_sessionId input \<and> s_userId s = u_id u)"
  shows "recordPuzzleAttempt e input ctx d =
           (Inl (ActionError NOT_FOUND ''Puzzle session not found.''),
            d\<lparr>statements := statements d @ [SELECT PuzzleSessionsTable]\<rparr>)"
proof -
  from assms(2)
  have "filter (sql_and (sql_eq s_id (ra_sessionId input)) (sql_eq s_userId (u_id u)))
          (PuzzleSessions d) = []"
    by (auto simp: filter_empty_conv sql_eq_def sql_and_def)
  with requireUser_Some [OF assms(1)] show ?thesis
    by (simp add: recordPuzzleAttempt_def select_PuzzleSessions_def issue_def)
qed

lemma recordPuzzleAttempt_present:
  assumes "locals_user ctx = Some u"
    and "\<exists>s \<in> set (PuzzleSessions d). s_id s = ra_sessionId input \<and> s_userId s = u_id u"
  shows "recordPuzzleAttempt e input ctx d =
           (if randomUUID e \<in> a_id ` set (PuzzleAttempts d)
            then (Inl (UniqueConstraintFailed PuzzleAttemptsTable),
                  d\<lparr>statements := statements d @
                       [SELECT PuzzleSessionsTable, INSERT PuzzleAttemptsTable]\<rparr>)
            else (Inr \<lparr>success = True, data = \<lparr>d_id = randomUUID e\<rparr>\<rparr>,
                  d\<lparr>PuzzleAttempts := PuzzleAttempts d @
                       [\<lparr>a_id = randomUUID e,
                         a_sessionId = ra_sessionId input,
                         a_attemptIndex = ra_attemptIndex input,
                         a_attemptDataJson = ra_attemptDataJson input,
                         a_isCorrect = ra_isCorrect input,
                         a_createdAt = new_Date e\<rparr>],
                     statements := statements d @
                       [SELECT PuzzleSessionsTable, INSERT PuzzleAttemptsTable]\<rparr>))"
proof -
  let ?w = "sql_and (sql_eq s_id (ra_sessionId input)) (sql_eq s_userId (u_id u))"
  from assms(2) have "filter ?w (PuzzleSessions d) \<noteq> []"
    by (auto simp: filter_empty_conv sql_eq_def sql_and_def)
  then obtain s ss where "filter ?w (PuzzleSessions d) = s # ss"
    by (cases "filter ?w (PuzzleSessions d)") auto
  with requireUser_Some [OF assms(1)] show ?thesis
    by (simp add: recordPuzzleAttempt_def select_PuzzleSessions_def insert_PuzzleAttempts_def
        issue_def Let_def)
qed

text \<open>
  C5. For an authenticated caller, \<open>recordPuzzleAttempt\<close> throws \<open>NOT_FOUND\<close> exactly when
  no session has the given id and the caller as its user. It succeeds exactly when such
  a session exists and the generated id is not yet the id of an attempt: neither the
  status of the session nor the attempts already recorded for it (their indices
  included) are looked at. On success one attempt is appended, with the generated id and
  the session id, index, data and correctness flag of the input, and nothing else of the
  tables changes. The schema fills in \<open>false\<close> when the caller gives no \<open>isCorrect\<close>.
\<close>

theorem recordPuzzleAttempt_spec:
  assumes "locals_user ctx = Some u"
  shows "(raises NOT_FOUND (recordPuzzleAttempt e input ctx d) \<longleftrightarrow>
            \<not> (\<exists>s \<in> set (PuzzleSessions d).
                 s_id s = ra_sessionId input \<and> s_userId s = u_id u)) \<and>
         (succeeds (recordPuzzleAttempt e input ctx d) \<longleftrightarrow>
            (\<exists>s \<in> set (PuzzleSessions d).
                 s_id s = ra_sessionId input \<and> s_userId s = u_id u) \<and>
            randomUUID e \<notin> a_id ` set (PuzzleAttempts d)) \<and>
         (succeeds (recordPuzzleAttempt e input ctx d) \<longrightarrow>
            recordPuzzleAttempt e input ctx d =
              (Inr \<lparr>success = True, data = \<lparr>d_id = randomUUID e\<rparr>\<rparr>,
               d\<lparr>PuzzleAttempts := PuzzleAttempts d @
                    [\<lparr>a_id = randomUUID e,
                      a_sessionId = ra_sessionId input,
                      a_attemptIndex = ra_attemptIndex input,
                      a_attemptDataJson = ra_attemptDataJson input,
                      a_isCorrect = ra_isCorrect input,
                      a_createdAt = new_Date e\<rparr>],
                  statements := statements d @
                    [SELECT PuzzleSessionsTable, INSERT PuzzleAttemptsTable]\<rparr>)) \<and>
         (\<forall>given parsed. recordPuzzleAttempt_input given = Some parsed \<longrightarrow>
            ra_isCorrect parsed = (case rag_isCorrect given of None \<Rightarrow> False | Some v \<Rightarrow> v))"
proof -
  have dflt: "\<forall>given parsed. recordPuzzleAttempt_input given = Some parsed \<longrightarrow>
      ra_isCorrect parsed = (case rag_isCorrect given of None \<Rightarrow> False | Some v \<Rightarrow> v)"
    by (auto simp: recordPuzzleAttempt_input_def default_def split: if_splits)
  show ?thesis
  proof (cases "\<exists>s \<in> set (PuzzleSessions d).
                   s_id s = ra_sessionId input \<and> s_userId s = u_id u")
    case False
    with recordPuzzleAttempt_absent [OF assms, of d input e] dflt show ?thesis
      by (simp add: raises_def succeeds_def)
  next
    case True
    with recordPuzzleAttempt_present [OF assms, of d input e] dflt show ?thesis
      by (simp add: raises_def succeeds_def)
  qed
qed



theorem recordPuzzleAttempt_spec_witness:
  "locals_user alice = Some \<lparr>u_id = ''alice''\<rparr> \<and>
   raises NOT_FOUND
     (recordPuzzleAttempt example_env
        \<lparr>ra_sessionId = ''ses-3'', ra_attemptIndex = 1, ra_attemptDataJson = None,
         ra_isCorrect = False\<rparr> alice example_db) \<and>
   recordPuzzleAttempt example_env
        \<lparr>ra_sessionId = ''ses-2'', ra_attemptIndex = 1, ra_attemptDataJson = Some ''[3]'',
         ra_isCorrect = False\<rparr> alice example_db =
     (Inr \<lparr>success = True, data = \<lparr>d_id = ''1b4e28ba-2fa1-41d2-883f-0016d3cca427''\<rparr>\<rparr>,
      example_db\<lparr>PuzzleAttempts := PuzzleAttempts example_db @
                    [\<lparr>a_id = ''1b4e28ba-2fa1-41d2-883f-0016d3cca427'',
                      a_sessionId = ''ses-2'',
                      a_attemptIndex = 1,
                      a_attemptDataJson = Some ''[3]'',
                      a_isCorrect = False,
                      a_createdAt = 1700000500000\<rparr>],
                  statements := statements example_db @
                    [SELECT PuzzleSessionsTable, INSERT PuzzleAttemptsTable]\<rparr>) \<and>
   map a_attemptIndex (filter (\<lambda>a. a_sessionId a = ''ses-2'') (PuzzleAttempts example_db)) = [1] \<and>
   map s_status (filter (\<lambda>s. s_id s = ''ses-2'') (PuzzleSessions example_db)) =
     [Some ''completed'']"
  (is "_ \<and> raises NOT_FOUND ?foreign \<and> ?recorded \<and> ?dup \<and> ?finished")
proof -
  note spec = recordPuzzleAttempt_spec [OF locals_user_alice, where e = example_env
      and d = example_db]
  have foreign: "raises NOT_FOUND ?foreign"
    using spec [where input = "\<lparr>ra_sessionId = ''ses-3'', ra_attemptIndex = 1,
      ra_attemptDataJson = None, ra_isCorrect = False\<rparr>"]
    by (simp add: example_db_simps)
  have "succeeds (recordPuzzleAttempt example_env
        \<lparr>ra_sessionId = ''ses-2'', ra_attemptIndex = 1, ra_attemptDataJson = Some ''[3]'',
         ra_isCorrect = False\<rparr> alice example_db)"
    using spec [where input = "\<lparr>ra_sessionId = ''ses-2'', ra_attemptIndex = 1,
      ra_attemptDataJson = Some ''[3]'', ra_isCorrect = False\<rparr>"]
    by (simp add: example_db_simps example_env_def)
  with spec [where input = "\<lparr>ra_sessionId = ''ses-2'', ra_attemptIndex = 1,
      ra_attemptDataJson = Some ''[3]'', ra_isCorrect = False\<rparr>"]
  have recorded: ?recorded
    by (simp add: example_env_def)
  have dup: ?dup and finished: ?finished
    by (simp_all add: example_db_simps)
  from foreign recorded dup finished locals_user_alice show ?thesis by blast
qed

section \<open>updatePuzzleTemplate: what a successful call writes\<close>

lemma map_key_unique:
  assumes "distinct (map k xs)" and "x \<in> set xs"
  shows "map (\<lambda>r. if k r = k x then f r else r) xs = map (\<lambda>r. if r = x then f x else r) xs"
proof (rule map_cong [OF refl])
  fix r assume "r \<in> set xs"
  with assms have "k r = k x \<longleftrightarrow> r = x"
    by (metis distinct_map inj_onD)
  then show "(if k r = k x then f r else r) = (if r = x then f x else r)" by auto
qed

text \<open>
  C6. An authenticated caller updates a template of theirs that is not a system
  template, in a store that respects the primary keys. The call succeeds and returns the
  id. In the row of the template, each of \<open>name\<close>, \<open>puzzleType\<close>, \<open>difficulty\<close>,
  \<open>description\<close>, \<open>dataJson\<close> and \<open>solutionJson\<close> takes the value of the input when the
  input gives a non-empty string and keeps its value when the input gives none or the
  empty string; \<open>updatedAt\<close> is the time of the call, whatever the input gives; \<open>id\<close>,
  \<open>userId\<close>, \<open>isSystem\<close> and \<open>createdAt\<close> keep their values. Every other template, and
  every session and attempt, is as before.
\<close>

theorem updatePuzzleTemplate_writes:
  assumes "locals_user ctx = Some u" and "primary_keys d"
    and "t \<in> set (PuzzleTemplates d)" and "t_id t = ui_id input"
    and "t_userId t = Some (u_id u)" and "\<not> t_isSystem t"
  shows "\<exists>t'. updatePuzzleTemplate e input ctx d =
           (Inr \<lparr>success = True, data = \<lparr>d_id = ui_id input\<rparr>\<rparr>,
            d\<lparr>PuzzleTemplates := map (\<lambda>x. if x = t then t' else x) (PuzzleTemplates d),
              statements := statements d @
                [SELECT PuzzleTemplatesTable, UPDATE PuzzleTemplatesTable]\<rparr>) \<and>
         t_name t' =
           (case ui_name input of
              None \<Rightarrow> t_name t | Some v \<Rightarrow> if v = [] then t_name t else v) \<and>
         t_puzzleType t' =
           (case ui_puzzleType input of
              None \<Rightarrow> t_puzzleType t | Some v \<Rightarrow> if v = [] then t_puzzleType t else Some v) \<and>
         t_difficulty t' =
           (case ui_difficulty input of
              None \<Rightarrow> t_difficulty t | Some v \<Rightarrow> if v = [] then t_difficulty t else Some v) \<and>
         t_description t' =
           (case ui_description input of
              None \<Rightarrow> t_description t | Some v \<Rightarrow> if v = [] then t_description t else Some v) \<and>
         t_dataJson t' =
           (case ui_dataJson input of
              None \<Rightarrow> t_dataJson t | Some v \<Rightarrow> if v = [] then t_dataJson t else Some v) \<and>
         t_solutionJson t' =
           (case ui_solutionJson input of
              None \<Rightarrow> t_solutionJson t | Some v \<Rightarrow> if v = [] then t_solutionJson t else Some v) \<and>
         t_updatedAt t' = new_Date e \<and>
         t_id t' = t_id t \<and> t_userId t' = t_userId t \<and> t_isSystem t' = t_isSystem t \<and>
         t_createdAt t' = t_createdAt t"
proof -
  let ?updates =
    "\<lparr>set_name = (if truthy (ui_name input) then ui_name input else None),
      set_puzzleType = (if truthy (ui_puzzleType input) then ui_puzzleType input else None),
      set_difficulty = (if truthy (ui_difficulty input) then ui_difficulty input else None),
      set_description = (if truthy (ui_description input) then ui_description input else None),
      set_dataJson = (if truthy (ui_dataJson input) then ui_dataJson input else None),
      set_solutionJson = (if truthy (ui_solutionJson input) then ui_solutionJson input else None),
      set_updatedAt = new_Date e\<rparr>"
  from assms(2) have dist: "distinct (map t_id (PuzzleTemplates d))"
    by (simp add: primary_keys_def)
  have rows: "map (\<lambda>r. if t_id r = ui_id input then set_template ?updates r else r)
                (PuzzleTemplates d) =
              map (\<lambda>r. if r = t then set_template ?updates t else r) (PuzzleTemplates d)"
    using map_key_unique [OF dist assms(3), of "set_template ?updates"] assms(4) by simp
  have call: "updatePuzzleTemplate e input ctx d =
           (Inr \<lparr>success = True, data = \<lparr>d_id = ui_id input\<rparr>\<rparr>,
            d\<lparr>PuzzleTemplates :=
                 map (\<lambda>x. if x = t then set_template ?updates t else x) (PuzzleTemplates d),
              statements := statements d @
                [SELECT PuzzleTemplatesTable, UPDATE PuzzleTemplatesTable]\<rparr>)"
    using updatePuzzleTemplate_present [OF assms(1) dist assms(3) assms(4), of e]
      assms(5) assms(6) rows
    by (simp add: update_PuzzleTemplates_def issue_def sql_eq_def)
  have fields:
    "t_name (set_template ?updates t) =
       (case ui_name input of None \<Rightarrow> t_name t | Some v \<Rightarrow> if v = [] then t_name t else v)"
    "t_puzzleType (set_template ?updates t) =
       (case ui_puzzleType input of
          None \<Rightarrow> t_puzzleType t | Some v \<Rightarrow> if v = [] then t_puzzleType t else Some v)"
    "t_difficulty (set_template ?updates t) =
       (case ui_difficulty input of
          None \<Rightarrow> t_difficulty t | Some v \<Rightarrow> if v = [] then t_difficulty t else Some v)"
    "t_description (set_template ?updates t) =
       (case ui_description input of
          None \<Rightarrow> t_description t | Some v \<Rightarrow> if v = [] then t_description t else Some v)"
    "t_dataJson (set_template ?updates t) =
       (case ui_dataJson input of
          None \<Rightarrow> t_dataJson t | Some v \<Rightarrow> if v = [] then t_dataJson t else Some v)"
    "t_solutionJson (set_template ?updates t) =
       (case ui_solutionJson input of
          None \<Rightarrow> t_solutionJson t | Some v \<Rightarrow> if v = [] then t_solutionJson t else Some v)"
    by (simp_all add: set_template_def assign_def split: option.splits)
  have frame:
    "t_updatedAt (set_template ?updates t) = new_Date e"
    "t_id (set_template ?updates t) = t_id t"
    "t_userId (set_template ?updates t) = t_userId t"
    "t_isSystem (set_template ?updates t) = t_isSystem t"
    "t_createdAt (set_template ?updates t) = t_createdAt t"
    by (simp_all add: set_template_def)
  from call fields frame show ?thesis by blast
qed


theorem updatePuzzleTemplate_writes_witness:
  "locals_user alice = Some \<lparr>u_id = ''alice''\<rparr> \<and> primary_keys example_db \<and>
   fst (updatePuzzleTemplate example_env
          \<lparr>ui_id = ''tpl-alice'', ui_name = None, ui_puzzleType = None,
           ui_difficulty = Some ''hard'', ui_description = Some [], ui_dataJson = None,
           ui_solutionJson = None\<rparr> alice example_db) =
     Inr \<lparr>success = True, data = \<lparr>d_id = ''tpl-alice''\<rparr>\<rparr> \<and>
   map (\<lambda>t. (t_id t, t_name t, t_puzzleType t, t_difficulty t, t_description t, t_updatedAt t))
     (PuzzleTemplates (snd (updatePuzzleTemplate example_env
          \<lparr>ui_id = ''tpl-alice'', ui_name = None, ui_puzzleType = None,
           ui_difficulty = Some ''hard'', ui_description = Some [], ui_dataJson = None,
           ui_solutionJson = None\<rparr> alice example_db))) =
     [(''system-puzzle-sample'', ''Starter Puzzle'', Some ''logic-grid'', Some ''easy'',
       Some ''A sample puzzle included with the starter app.'', 1700000000000),
      (''tpl-alice'', ''Test'', Some ''sudoku'', Some ''hard'', Some ''A test puzzle'',
       1700000500000),
      (''tpl-bob'', ''Riddle'', None, Some ''hard'', None, 1700000200000)]"
  (is "_ \<and> _ \<and> ?returned \<and> ?rows")
proof -
  let ?t = "\<lparr>t_id = ''tpl-alice'', t_userId = Some ''alice'', t_name = ''Test'',
             t_puzzleType = Some ''sudoku'', t_difficulty = None,
             t_description = Some ''A test puzzle'',
             t_dataJson = None, t_solutionJson = None, t_isSystem = False,
             t_createdAt = 1700000100000, t_updatedAt = 1700000100000\<rparr>"
  have target: "?t \<in> set (PuzzleTemplates example_db)"
    by (simp add: example_db_simps)
  obtain t' where
    call: "updatePuzzleTemplate example_env
          \<lparr>ui_id = ''tpl-alice'', ui_name = None, ui_puzzleType = None,
           ui_difficulty = Some ''hard'', ui_description = Some [], ui_dataJson = None,
           ui_solutionJson = None\<rparr> alice example_db =
       (Inr \<lparr>success = True, data = \<lparr>d_id = ''tpl-alice''\<rparr>\<rparr>,
        example_db\<lparr>PuzzleTemplates := map (\<lambda>x. if x = ?t then t' else x)
                      (PuzzleTemplates example_db),
                   statements := statements example_db @
                     [SELECT PuzzleTemplatesTable, UPDATE PuzzleTemplatesTable]\<rparr>)"
    and fields: "t_id t' = ''tpl-alice''" "t_name t' = ''Test''"
      "t_puzzleType t' = Some ''sudoku''" "t_difficulty t' = Some ''hard''"
      "t_description t' = Some ''A test puzzle''" "t_updatedAt t' = 1700000500000"
    using updatePuzzleTemplate_writes [OF locals_user_alice primary_keys_example_db target,
        where e = example_env
        and input = "\<lparr>ui_id = ''tpl-alice'', ui_name = None, ui_puzzleType = None,
           ui_difficulty = Some ''hard'', ui_description = Some [], ui_dataJson = None,
           ui_solutionJson = None\<rparr>"]
    by (auto simp: example_env_def)
  have returned: ?returned unfolding call by simp
  have rows: ?rows unfolding call using fields by (simp add: example_db_simps)
  from returned rows locals_user_alice primary_keys_example_db show ?thesis by blast
qed

section \<open>createPuzzleTemplate\<close>

lemma createPuzzleTemplate_eq:
  assumes "locals_user ctx = Some u"
  shows "createPuzzleTemplate e input ctx d =
           (if randomUUID e \<in> t_id ` set (PuzzleTemplates d)
            then (Inl (UniqueConstraintFailed PuzzleTemplatesTable),
                  d\<lparr>statements := statements d @ [INSERT PuzzleTemplatesTable]\<rparr>)
            else (Inr \<lparr>success = True, data = \<lparr>d_id = randomUUID e\<rparr>\<rparr>,
                  d\<lparr>PuzzleTemplates := PuzzleTemplates d @
                       [\<lparr>t_id = randomUUID e,
                         t_userId = Some (u_id u),
                         t_name = ci_name input,
                         t_puzzleType = ci_puzzleType input,
                         t_difficulty = ci_difficulty input,
                         t_description = ci_description input,
                         t_dataJson = ci_dataJson input,
                         t_solutionJson = ci_solutionJson input,
                         t_isSystem = False,
                         t_createdAt = new_Date e,
                         t_updatedAt = new_Date e\<rparr>],
                     statements := statements d @ [INSERT PuzzleTemplatesTable]\<rparr>))"
  using requireUser_Some [OF assms]
  by (simp add: createPuzzleTemplate_def insert_PuzzleTemplates_def issue_def Let_def)

text \<open>
  C7. For an authenticated caller and every input, \<open>createPuzzleTemplate\<close> succeeds
  exactly when the generated id is the id of no template yet (the primary key rejects a
  duplicate); a successful call has therefore a fresh id. It then returns that id and
  appends one row to the templates: with that id, the caller as \<open>userId\<close>,
  \<open>isSystem = false\<close>, \<open>createdAt = updatedAt = now\<close>, and the name and the optional
  fields of the input. No other row of any table changes, and a call that does not
  succeed changes no row at all.
\<close>

theorem createPuzzleTemplate_spec:
  assumes "locals_user ctx = Some u"
  shows "(succeeds (createPuzzleTemplate e input ctx d) \<longleftrightarrow>
            randomUUID e \<notin> t_id ` set (PuzzleTemplates d)) \<and>
         (succeeds (createPuzzleTemplate e input ctx d) \<longrightarrow>
            createPuzzleTemplate e input ctx d =
              (Inr \<lparr>success = True, data = \<lparr>d_id = randomUUID e\<rparr>\<rparr>,
               d\<lparr>PuzzleTemplates := PuzzleTemplates d @
                    [\<lparr>t_id = randomUUID e,
                      t_userId = Some (u_id u),
                      t_name = ci_name input,
                      t_puzzleType = ci_puzzleType input,
                      t_difficulty = ci_difficulty input,
                      t_description = ci_description input,
                      t_dataJson = ci_dataJson input,
                      t_solutionJson = ci_solutionJson input,
                      t_isSystem = False,
                      t_createdAt = new_Date e,
                      t_updatedAt = new_Date e\<rparr>],
                  statements := statements d @ [INSERT PuzzleTemplatesTable]\<rparr>)) \<and>
         (\<not> succeeds (createPuzzleTemplate e input ctx d) \<longrightarrow>
            PuzzleTemplates (snd (createPuzzleTemplate e input ctx d)) = PuzzleTemplates d) \<and>
         PuzzleSessions (snd (createPuzzleTemplate e input ctx d)) = PuzzleSessions d \<and>
         PuzzleAttempts (snd (createPuzzleTemplate e input ctx d)) = PuzzleAttempts d"
proof (cases "randomUUID e \<in> t_id ` set (PuzzleTemplates d)")
  case True
  with createPuzzleTemplate_eq [OF assms, of e input d]
  have "createPuzzleTemplate e input ctx d =
      (Inl (UniqueConstraintFailed PuzzleTemplatesTable),
       d\<lparr>statements := statements d @ [INSERT PuzzleTemplatesTable]\<rparr>)"
    by simp
  with True show ?thesis
    by (simp add: succeeds_def)
next
  case False
  with createPuzzleTemplate_eq [OF assms, of e input d]
  have "succeeds (createPuzzleTemplate e input ctx d)"
    and "PuzzleSessions (snd (createPuzzleTemplate e input ctx d)) = PuzzleSessions d"
    and "PuzzleAttempts (snd (createPuzzleTemplate e input ctx d)) = PuzzleAttempts d"
    by (simp_all add: succeeds_def)
  with False createPuzzleTemplate_eq [OF assms, of e input d] show ?thesis
    by simp
qed

theorem createPuzzleTemplate_spec_witness:
  "locals_user alice = Some \<lparr>u_id = ''alice''\<rparr> \<and>
   createPuzzleTemplate example_env
       \<lparr>ci_name = ''Test'', ci_puzzleType = Some ''sudoku'', ci_difficulty = None,
        ci_description = None, ci_dataJson = Some ''[[0,1],[1,0]]'',
        ci_solutionJson = None\<rparr> alice example_db =
     (Inr \<lparr>success = True, data = \<lparr>d_id = ''1b4e28ba-2fa1-41d2-883f-0016d3cca427''\<rparr>\<rparr>,
      example_db\<lparr>PuzzleTemplates := PuzzleTemplates example_db @
                    [\<lparr>t_id = ''1b4e28ba-2fa1-41d2-883f-0016d3cca427'',
                      t_userId = Some ''alice'',
                      t_name = ''Test'',
                      t_puzzleType = Some ''sudoku'',
                      t_difficulty = None,
                      t_description = None,
                      t_dataJson = Some ''[[0,1],[1,0]]'',
                      t_solutionJson = None,
                      t_isSystem = False,
                      t_createdAt = 1700000500000,
                      t_updatedAt = 1700000500000\<rparr>],
                  statements := statements example_db @ [INSERT PuzzleTemplatesTable]\<rparr>)"
  (is "_ \<and> ?created")
proof -
  note spec = createPuzzleTemplate_spec [OF locals_user_alice, where e = example_env
      and d = example_db
      and input = "\<lparr>ci_name = ''Test'', ci_puzzleType = Some ''sudoku'', ci_difficulty = None,
        ci_description = None, ci_dataJson = Some ''[[0,1],[1,0]]'',
        ci_solutionJson = None\<rparr>"]
  have "succeeds (createPuzzleTemplate example_env
       \<lparr>ci_name = ''Test'', ci_puzzleType = Some ''sudoku'', ci_difficulty = None,
        ci_description = None, ci_dataJson = Some ''[[0,1],[1,0]]'',
        ci_solutionJson = None\<rparr> alice example_db)"
    using spec by (simp add: example_db_simps example_env_def)
  note result = spec [THEN conjunct2, THEN conjunct1, rule_format, OF this]
  have created: ?created unfolding result by (simp add: example_env_def)
  from created locals_user_alice show ?thesis by blast
qed

section \<open>listPuzzleTemplates\<close>

lemma listPuzzleTemplates_eq:
  assumes "locals_user ctx = Some u"
  shows "listPuzzleTemplates input ctx d =
           (Inr \<lparr>success = True,
                 data = \<lparr>tl_items =
                           filter (\<lambda>t. t_userId t = Some (u_id u) \<or>
                                        lt_includeSystem input \<and> t_isSystem t)
                             (PuzzleTemplates d),
                         tl_total =
                           int (length
                             (filter (\<lambda>t. t_userId t = Some (u_id u) \<or>
                                          lt_includeSystem input \<and> t_isSystem t)
                               (PuzzleTemplates d)))\<rparr>\<rparr>,
            d\<lparr>statements := statements d @ [SELECT PuzzleTemplatesTable]\<rparr>)"
  using requireUser_Some [OF assms]
  by (simp add: listPuzzleTemplates_def select_PuzzleTemplates_def issue_def sql_eq_def
      sql_or_def)

text \<open>
  C8. For an authenticated caller, \<open>listPuzzleTemplates\<close> succeeds with one read of the
  templates and returns as items exactly the templates whose \<open>userId\<close> is the caller,
  together with the system templates when \<open>includeSystem\<close> is true, in table order. The
  total of every result is the length of its items. On the same store and for the same
  caller every item of the result for \<open>includeSystem = false\<close> is an item of the result
  for \<open>includeSystem = true\<close>. The schema fills in \<open>true\<close> when the caller gives no
  \<open>includeSystem\<close>.
\<close>

theorem listPuzzleTemplates_spec:
  assumes "locals_user ctx = Some u"
  shows "listPuzzleTemplates input ctx d =
           (Inr \<lparr>success = True,
                 data = \<lparr>tl_items =
                           filter (\<lambda>t. t_userId t = Some (u_id u) \<or>
                                        lt_includeSystem input \<and> t_isSystem t)
                             (PuzzleTemplates d),
                         tl_total =
                           int (length
                             (filter (\<lambda>t. t_userId t = Some (u_id u) \<or>
                                          lt_includeSystem input \<and> t_isSystem t)
                               (PuzzleTemplates d)))\<rparr>\<rparr>,
            d\<lparr>statements := statements d @ [SELECT PuzzleTemplatesTable]\<rparr>) \<and>
         (\<forall>r d'. listPuzzleTemplates input ctx d = (Inr r, d') \<longrightarrow>
            tl_total (data r) = int (length (tl_items (data r)))) \<and>
         (\<forall>r d' r' d''.
            listPuzzleTemplates \<lparr>lt_includeSystem = False\<rparr> ctx d = (Inr r, d') \<and>
            listPuzzleTemplates \<lparr>lt_includeSystem = True\<rparr> ctx d = (Inr r', d'') \<longrightarrow>
            set (tl_items (data r)) \<subseteq> set (tl_items (data r'))) \<and>
         listPuzzleTemplates_input \<lparr>ltg_includeSystem = None\<rparr> =
           Some \<lparr>lt_includeSystem = True\<rparr>"
proof -
  have dflt: "listPuzzleTemplates_input \<lparr>ltg_includeSystem = None\<rparr> =
      Some \<lparr>lt_includeSystem = True\<rparr>"
    by (simp add: listPuzzleTemplates_input_def default_def)
  have total: "\<forall>r d'. listPuzzleTemplates input ctx d = (Inr r, d') \<longrightarrow>
      tl_total (data r) = int (length (tl_items (data r)))"
    by (auto simp: listPuzzleTemplates_eq [OF assms])
  have subset: "\<forall>r d' r' d''.
      listPuzzleTemplates \<lparr>lt_includeSystem = False\<rparr> ctx d = (Inr r, d') \<and>
      listPuzzleTemplates \<lparr>lt_includeSystem = True\<rparr> ctx d = (Inr r', d'') \<longrightarrow>
      set (tl_items (data r)) \<subseteq> set (tl_items (data r'))"
    by (auto simp: listPuzzleTemplates_eq [OF assms])
  from listPuzzleTemplates_eq [OF assms, of input d] total subset dflt show ?thesis
    by blast
qed

theorem listPuzzleTemplates_spec_witness:
  "locals_user bob = Some \<lparr>u_id = ''bob''\<rparr> \<and>
   map t_id (tl_items (data (projr (fst
     (listPuzzleTemplates \<lparr>lt_includeSystem = True\<rparr> bob example_db))))) =
     [''system-puzzle-sample'', ''tpl-bob''] \<and>
   tl_total (data (projr (fst
     (listPuzzleTemplates \<lparr>lt_includeSystem = True\<rparr> bob example_db)))) = 2 \<and>
   map t_id (tl_items (data (projr (fst
     (listPuzzleTemplates \<lparr>lt_includeSystem = False\<rparr> bob example_db))))) = [''tpl-bob''] \<and>
   tl_total (data (projr (fst
     (listPuzzleTemplates \<lparr>lt_includeSystem = False\<rparr> bob example_db)))) = 1 \<and>
   statements (snd (listPuzzleTemplates \<lparr>lt_includeSystem = True\<rparr> bob example_db)) =
     statements example_db @ [SELECT PuzzleTemplatesTable]"
proof -
  note all = listPuzzleTemplates_spec [OF locals_user_bob, where d = example_db
      and input = "\<lparr>lt_includeSystem = True\<rparr>", THEN conjunct1]
  note own = listPuzzleTemplates_spec [OF locals_user_bob, where d = example_db
      and input = "\<lparr>lt_includeSystem = False\<rparr>", THEN conjunct1]
  show ?thesis
    unfolding all own
    by (simp add: locals_user_bob example_db_simps)
qed

section \<open>listPuzzleSessions\<close>

lemma listPuzzleSessions_where:
  "reduce (\<lambda>prev current. sql_and prev current)
     ([sql_eq s_userId uid] @
      (if truthy tid
       then (case tid of Some puzzleTemplateId \<Rightarrow> [sql_eq s_puzzleTemplateId puzzleTemplateId]
             | None \<Rightarrow> [])
       else []) @
      (if truthy st then [sql_eq s_status st] else [])) =
   Some (\<lambda>s. s_userId s = uid \<and>
              (truthy tid \<longrightarrow> tid = Some (s_puzzleTemplateId s)) \<and>
              (truthy st \<longrightarrow> s_status s = st))"
  by (cases tid) (auto simp: sql_eq_def sql_and_def)

lemma listPuzzleSessions_eq:
  assumes "locals_user ctx = Some u"
  shows "listPuzzleSessions input ctx d =
           (Inr \<lparr>success = True,
                 data = \<lparr>sl_items =
                           limit_offset (ls_pageSize input)
                             ((ls_page input - 1) * ls_pageSize input)
                             (filter (\<lambda>s. s_userId s = u_id u \<and>
                                (truthy (ls_puzzleTemplateId input) \<longrightarrow>
                                   ls_puzzleTemplateId input = Some (s_puzzleTemplateId s)) \<and>
                                (truthy (ls_status input) \<longrightarrow> s_status s = ls_status input))
                               (PuzzleSessions d)),
                         sl_total =
                           int (length
                             (limit_offset (ls_pageSize input)
                               ((ls_page input - 1) * ls_pageSize input)
                               (filter (\<lambda>s. s_userId s = u_id u \<and>
                                  (truthy (ls_puzzleTemplateId input) \<longrightarrow>
                                     ls_puzzleTemplateId input = Some (s_puzzleTemplateId s)) \<and>
                                  (truthy (ls_status input) \<longrightarrow> s_status s = ls_status input))
                                 (PuzzleSessions d)))),
                         sl_page = ls_page input\<rparr>\<rparr>,
            d\<lparr>statements := statements d @ [SELECT PuzzleSessionsTable]\<rparr>)"
  unfolding listPuzzleSessions_def Let_def listPuzzleSessions_where
  by (simp add: requireUser_Some [OF assms] select_PuzzleSessions_page_def issue_def)

text \<open>
  C9. For an authenticated caller and a page and page size that are positive, as the
  schema requires, \<open>listPuzzleSessions\<close> succeeds with one read of the sessions. The
  matching sessions are those of the caller that also have the given \<open>puzzleTemplateId\<close>
  and the given \<open>status\<close>, each of the two conditions applying only when the input gives
  a non-empty string for it. The items are the matching sessions from offset
  \<open>(page - 1) * pageSize\<close> on, at most \<open>pageSize\<close> of them, in table order; every item
  belongs to the caller. The total is the number of items of this page: the smaller of
  \<open>pageSize\<close> and the number of matching sessions left after the offset, and not the
  number of all matching sessions.
\<close>

theorem listPuzzleSessions_spec:
  fixes input :: list_sessions_input and d :: db and u :: user
  defines "matching \<equiv>
     filter (\<lambda>s. s_userId s = u_id u \<and>
               (truthy (ls_puzzleTemplateId input) \<longrightarrow>
                  ls_puzzleTemplateId input = Some (s_puzzleTemplateId s)) \<and>
               (truthy (ls_status input) \<longrightarrow> s_status s = ls_status input))
       (PuzzleSessions d)"
  defines "items \<equiv>
     take (nat (ls_pageSize input)) (drop (nat ((ls_page input - 1) * ls_pageSize input)) matching)"
  assumes "locals_user ctx = Some u" and "0 < ls_page input" and "0 < ls_pageSize input"
  shows "listPuzzleSessions input ctx d =
           (Inr \<lparr>success = True,
                 data = \<lparr>sl_items = items, sl_total = int (length items),
                         sl_page = ls_page input\<rparr>\<rparr>,
            d\<lparr>statements := statements d @ [SELECT PuzzleSessionsTable]\<rparr>) \<and>
         (\<forall>s \<in> set items. s_userId s = u_id u) \<and>
         int (length items) \<le> ls_pageSize input \<and>
         int (length items) =
           min (ls_pageSize input)
             (max 0 (int (length matching) - (ls_page input - 1) * ls_pageSize input))"
proof -
  have page: "limit_offset (ls_pageSize input) ((ls_page input - 1) * ls_pageSize input)
      matching = items"
    using assms(5) by (simp add: limit_offset_def items_def)
  have call: "listPuzzleSessions input ctx d =
           (Inr \<lparr>success = True,
                 data = \<lparr>sl_items = items, sl_total = int (length items),
                         sl_page = ls_page input\<rparr>\<rparr>,
            d\<lparr>statements := statements d @ [SELECT PuzzleSessionsTable]\<rparr>)"
    using listPuzzleSessions_eq [OF assms(3), of input d] page
    by (simp add: matching_def)
  have "set items \<subseteq> set matching"
    unfolding items_def by (meson set_take_subset set_drop_subset subset_trans)
  then have owner: "\<forall>s \<in> set items. s_userId s = u_id u"
    by (auto simp: matching_def)
  have offset: "0 \<le> (ls_page input - 1) * ls_pageSize input"
    using assms(4) assms(5) by simp
  have len: "length items =
      min (nat (ls_pageSize input))
        (length matching - nat ((ls_page input - 1) * ls_pageSize input))"
    by (simp add: items_def)
  from len assms(5) have bound: "int (length items) \<le> ls_pageSize input"
    by linarith
  from len assms(5) offset
  have count: "int (length items) =
      min (ls_pageSize input)
        (max 0 (int (length matching) - (ls_page input - 1) * ls_pageSize input))"
    by linarith
  from call owner bound count show ?thesis by blast
qed

theorem listPuzzleSessions_spec_witness:
  "locals_user alice = Some \<lparr>u_id = ''alice''\<rparr> \<and>
   map s_id (sl_items (data (projr (fst
     (listPuzzleSessions
        \<lparr>ls_puzzleTemplateId = None, ls_status = None, ls_page = 1, ls_pageSize = 2\<rparr>
        alice example_db))))) = [''ses-1'', ''ses-2''] \<and>
   sl_total (data (projr (fst
     (listPuzzleSessions
        \<lparr>ls_puzzleTemplateId = None, ls_status = None, ls_page = 1, ls_pageSize = 2\<rparr>
        alice example_db)))) = 2 \<and>
   map s_id (filter (\<lambda>s. s_userId s = ''alice'') (PuzzleSessions example_db)) =
     [''ses-1'', ''ses-2'', ''ses-4''] \<and>
   map s_id (sl_items (data (projr (fst
     (listPuzzleSessions
        \<lparr>ls_puzzleTemplateId = None, ls_status = None, ls_page = 2, ls_pageSize = 2\<rparr>
        alice example_db))))) = [''ses-4''] \<and>
   fst (listPuzzleSessions
        \<lparr>ls_puzzleTemplateId = Some ''tpl-alice'', ls_status = Some ''abandoned'', ls_page = 1,
         ls_pageSize = 20\<rparr> alice example_db) =
     Inr \<lparr>success = True,
          data = \<lparr>sl_items =
                    [\<lparr>s_id = ''ses-4'', s_puzzleTemplateId = ''tpl-alice'', s_userId = ''alice'',
                      s_startedAt = 1700000330000, s_completedAt = Some 1700000340000,
                      s_status = Some ''abandoned'', s_score = None,
                      s_timeTakenSeconds = None\<rparr>],
                  sl_total = 1, sl_page = 1\<rparr>\<rparr>"
  (is "_ \<and> ?first \<and> ?total \<and> ?all \<and> ?second \<and> ?filtered")
proof -
  have first_page: "0 < ls_page
      \<lparr>ls_puzzleTemplateId = None, ls_status = None, ls_page = 1, ls_pageSize = 2\<rparr>"
    "0 < ls_pageSize
      \<lparr>ls_puzzleTemplateId = None, ls_status = None, ls_page = 1, ls_pageSize = 2\<rparr>"
    by simp_all
  have second_page: "0 < ls_page
      \<lparr>ls_puzzleTemplateId = None, ls_status = None, ls_page = 2, ls_pageSize = 2\<rparr>"
    "0 < ls_pageSize
      \<lparr>ls_puzzleTemplateId = None, ls_status = None, ls_page = 2, ls_pageSize = 2\<rparr>"
    by simp_all
  have filtered_page: "0 < ls_page
      \<lparr>ls_puzzleTemplateId = Some ''tpl-alice'', ls_status = Some ''abandoned'', ls_page = 1,
       ls_pageSize = 20\<rparr>"
    "0 < ls_pageSize
      \<lparr>ls_puzzleTemplateId = Some ''tpl-alice'', ls_status = Some ''abandoned'', ls_page = 1,
       ls_pageSize = 20\<rparr>"
    by simp_all
  note one = listPuzzleSessions_spec [OF locals_user_alice first_page,
      where d = example_db, THEN conjunct1]
  note two = listPuzzleSessions_spec [OF locals_user_alice second_page,
      where d = example_db, THEN conjunct1]
  note three = listPuzzleSessions_spec [OF locals_user_alice filtered_page,
      where d = example_db, THEN conjunct1]
  have "?first" and "?total" unfolding one by (simp_all add: example_db_simps)
  moreover have "?all" by (simp add: example_db_simps)
  moreover have "?second" unfolding two by (simp add: example_db_simps)
  moreover have "?filtered" unfolding three by (simp add: example_db_simps)
  ultimately show ?thesis using locals_user_alice by blast
qed

text \<open>
  C10. In \<open>listPuzzleSessions\<close> the empty string as \<open>puzzleTemplateId\<close> is falsy, so the
  condition on the template is not added: for every caller, store and remaining input,
  the call returns what the call without \<open>puzzleTemplateId\<close> returns and leaves the same
  store. The same holds for the empty string as \<open>status\<close>.
\<close>

theorem listPuzzleSessions_empty_filter:
  "listPuzzleSessions (input\<lparr>ls_puzzleTemplateId := Some []\<rparr>) ctx d =
     listPuzzleSessions (input\<lparr>ls_puzzleTemplateId := None\<rparr>) ctx d \<and>
   listPuzzleSessions (input\<lparr>ls_status := Some []\<rparr>) ctx d =
     listPuzzleSessions (input\<lparr>ls_status := None\<rparr>) ctx d"
proof (cases "requireUser ctx")
  case (Inl err)
  then show ?thesis
    by (simp add: listPuzzleSessions_def)
next
  case (Inr user)
  have falsy: "\<not> truthy (Some [])" "\<not> truthy None"
    by simp_all
  have "listPuzzleSessions (input\<lparr>ls_puzzleTemplateId := Some []\<rparr>) ctx d =
      listPuzzleSessions (input\<lparr>ls_puzzleTemplateId := None\<rparr>) ctx d"
    using Inr falsy by (simp add: listPuzzleSessions_def)
  moreover
  have "listPuzzleSessions (input\<lparr>ls_status := Some []\<rparr>) ctx d =
      listPuzzleSessions (input\<lparr>ls_status := None\<rparr>) ctx d"
    using Inr falsy by (simp add: listPuzzleSessions_def)
  ultimately show ?thesis by blast
qed

theorem listPuzzleSessions_empty_filter_witness:
  "listPuzzleSessions
     \<lparr>ls_puzzleTemplateId = Some [], ls_status = Some ''completed'', ls_page = 1,
      ls_pageSize = 20\<rparr> alice example_db =
   listPuzzleSessions
     \<lparr>ls_puzzleTemplateId = None, ls_status = Some ''completed'', ls_page = 1,
      ls_pageSize = 20\<rparr> alice example_db \<and>
   listPuzzleSessions
     \<lparr>ls_puzzleTemplateId = Some ''tpl-alice'', ls_status = Some [], ls_page = 1,
      ls_pageSize = 20\<rparr> alice example_db =
   listPuzzleSessions
     \<lparr>ls_puzzleTemplateId = Some ''tpl-alice'', ls_status = None, ls_page = 1,
      ls_pageSize = 20\<rparr> alice example_db"
  using listPuzzleSessions_empty_filter [of
      "\<lparr>ls_puzzleTemplateId = None, ls_status = Some ''completed'', ls_page = 1,
        ls_pageSize = 20\<rparr>" alice example_db, THEN conjunct1]
    listPuzzleSessions_empty_filter [of
      "\<lparr>ls_puzzleTemplateId = Some ''tpl-alice'', ls_status = None, ls_page = 1,
        ls_pageSize = 20\<rparr>" alice example_db, THEN conjunct2]
  by simp

section \<open>What the schemas guarantee\<close>

text \<open>
  The inputs a handler is called with are the ones its schema returns. The text fields
  required to be non-empty are non-empty, the page and the page size are positive and
  the page size is at most 100, and the keys the caller leaves out have their defaults.
\<close>

lemma createPuzzleTemplate_input_accepts:
  "createPuzzleTemplate_input given = Some input \<Longrightarrow> input = given \<and> ci_name input \<noteq> []"
  by (auto simp: createPuzzleTemplate_input_def min1_def split: if_splits)

lemma updatePuzzleTemplate_input_accepts:
  "updatePuzzleTemplate_input given = Some input \<Longrightarrow>
   input = given \<and> ui_id input \<noteq> [] \<and> ui_name input \<noteq> Some [] \<and>
   ui_puzzleType input \<noteq> Some [] \<and> ui_difficulty input \<noteq> Some []"
  by (auto simp: updatePuzzleTemplate_input_def min1_def optional_def split: if_splits)

lemma startPuzzleSession_input_accepts:
  "startPuzzleSession_input given = Some input \<Longrightarrow>
   input = given \<and> st_puzzleTemplateId input \<noteq> []"
  by (auto simp: startPuzzleSession_input_def min1_def split: if_splits)

lemma listPuzzleSessions_input_accepts:
  assumes "listPuzzleSessions_input given = Some input"
  shows "0 < ls_page input \<and> 0 < ls_pageSize input \<and> ls_pageSize input \<le> 100 \<and>
         ls_page input = (case lsg_page given of None \<Rightarrow> 1 | Some n \<Rightarrow> n) \<and>
         ls_pageSize input = (case lsg_pageSize given of None \<Rightarrow> 20 | Some n \<Rightarrow> n)"
proof -
  from assms have ok: "optional positive (lsg_page given)"
      "optional (\<lambda>n. positive n \<and> n \<le> 100) (lsg_pageSize given)"
    and page: "ls_page input = default 1 (lsg_page given)"
    and size: "ls_pageSize input = default 20 (lsg_pageSize given)"
    by (auto simp: listPuzzleSessions_input_def split: if_splits)
  from ok(1) page have "0 < ls_page input"
    by (cases "lsg_page given") (simp_all add: optional_def positive_def default_def)
  moreover from ok(2) size have "0 < ls_pageSize input \<and> ls_pageSize input \<le> 100"
    by (cases "lsg_pageSize given") (simp_all add: optional_def positive_def default_def)
  moreover from page size
  have "ls_page input = (case lsg_page given of None \<Rightarrow> 1 | Some n \<Rightarrow> n)"
    and "ls_pageSize input = (case lsg_pageSize given of None \<Rightarrow> 20 | Some n \<Rightarrow> n)"
    by (simp_all add: default_def)
  ultimately show ?thesis by blast
qed

section \<open>The primary keys are an invariant\<close>

text \<open>
  The empty store respects the primary keys, and the seed and the seven handlers keep
  them: the stores the actions meet are the ones the theorems above speak about.
\<close>

lemma primary_keys_empty_db: "primary_keys empty_db"
  by (simp add: primary_keys_def empty_db_def)

lemma primary_keys_issue: "primary_keys (issue st d) = primary_keys d"
  by (simp add: primary_keys_def issue_def)

lemma primary_keys_insert_PuzzleTemplates:
  "primary_keys d \<Longrightarrow> primary_keys (snd (insert_PuzzleTemplates row d))"
  by (auto simp: insert_PuzzleTemplates_def primary_keys_def issue_def)

lemma primary_keys_insert_PuzzleSessions:
  "primary_keys d \<Longrightarrow> primary_keys (snd (insert_PuzzleSessions row d))"
  by (auto simp: insert_PuzzleSessions_def primary_keys_def issue_def)

lemma primary_keys_insert_PuzzleAttempts:
  "primary_keys d \<Longrightarrow> primary_keys (snd (insert_PuzzleAttempts row d))"
  by (auto simp: insert_PuzzleAttempts_def primary_keys_def issue_def)

lemma primary_keys_update_PuzzleTemplates:
  "primary_keys d \<Longrightarrow> primary_keys (update_PuzzleTemplates upd w d)"
proof -
  have "t_id \<circ> (\<lambda>row. if w row then set_template upd row else row) = t_id"
    by (rule ext) (simp add: set_template_def)
  then show "primary_keys d \<Longrightarrow> primary_keys (update_PuzzleTemplates upd w d)"
    by (simp add: update_PuzzleTemplates_def primary_keys_def issue_def)
qed

lemma primary_keys_update_PuzzleSessions:
  "primary_keys d \<Longrightarrow> primary_keys (update_PuzzleSessions upd w d)"
proof -
  have "s_id \<circ> (\<lambda>row. if w row then set_session upd row else row) = s_id"
    by (rule ext) (simp add: set_session_def)
  then show "primary_keys d \<Longrightarrow> primary_keys (update_PuzzleSessions upd w d)"
    by (simp add: update_PuzzleSessions_def primary_keys_def issue_def)
qed

lemma primary_keys_seed: "primary_keys d \<Longrightarrow> primary_keys (snd (seed e d))"
  by (simp add: seed_def Let_def primary_keys_insert_PuzzleTemplates)

lemma primary_keys_createPuzzleTemplate:
  assumes "primary_keys d"
  shows "primary_keys (snd (createPuzzleTemplate e input ctx d))"
proof (cases "requireUser ctx")
  case (Inl err)
  with assms show ?thesis by (simp add: createPuzzleTemplate_def)
next
  case (Inr user)
  let ?row = "\<lparr>t_id = randomUUID e, t_userId = Some (u_id user), t_name = ci_name input,
      t_puzzleType = ci_puzzleType input, t_difficulty = ci_difficulty input,
      t_description = ci_description input, t_dataJson = ci_dataJson input,
      t_solutionJson = ci_solutionJson input, t_isSystem = False,
      t_createdAt = new_Date e, t_updatedAt = new_Date e\<rparr>"
  obtain r d' where ins: "insert_PuzzleTemplates ?row d = (r, d')"
    by (cases "insert_PuzzleTemplates ?row d")
  with primary_keys_insert_PuzzleTemplates [OF assms, of ?row] have "primary_keys d'"
    by simp
  with Inr ins show ?thesis
    by (cases r) (simp_all add: createPuzzleTemplate_def Let_def)
qed

lemma primary_keys_updatePuzzleTemplate:
  assumes "primary_keys d"
  shows "primary_keys (snd (updatePuzzleTemplate e input ctx d))"
proof (cases "requireUser ctx")
  case (Inl err)
  with assms show ?thesis by (simp add: updatePuzzleTemplate_def)
next
  case (Inr user)
  with assms show ?thesis
    by (simp add: updatePuzzleTemplate_def select_PuzzleTemplates_def Let_def
        primary_keys_issue primary_keys_update_PuzzleTemplates split: list.splits)
qed

lemma primary_keys_listPuzzleTemplates:
  assumes "primary_keys d"
  shows "primary_keys (snd (listPuzzleTemplates input ctx d))"
proof (cases "requireUser ctx")
  case (Inl err)
  with assms show ?thesis by (simp add: listPuzzleTemplates_def)
next
  case (Inr user)
  with assms show ?thesis
    by (simp add: listPuzzleTemplates_def select_PuzzleTemplates_def primary_keys_issue)
qed

lemma primary_keys_startPuzzleSession:
  assumes "primary_keys d"
  shows "primary_keys (snd (startPuzzleSession e input ctx d))"
proof (cases "requireUser ctx")
  case (Inl err)
  with assms show ?thesis by (simp add: startPuzzleSession_def)
next
  case (Inr user)
  let ?d = "issue (SELECT PuzzleTemplatesTable) d"
  from assms have read: "primary_keys ?d"
    by (simp add: primary_keys_issue)
  have "primary_keys (snd (case insert_PuzzleSessions row ?d of
            (Inl err, d'') \<Rightarrow> (Inl err, d'')
          | (Inr x, d'') \<Rightarrow> (Inr (f x), d'')))" for row and f :: "unit \<Rightarrow> started_data action_result"
  proof -
    obtain r d' where ins: "insert_PuzzleSessions row ?d = (r, d')"
      by (cases "insert_PuzzleSessions row ?d")
    with primary_keys_insert_PuzzleSessions [OF read, of row] have "primary_keys d'"
      by simp
    with ins show ?thesis by (cases r) simp_all
  qed
  with Inr read show ?thesis
    by (simp add: startPuzzleSession_def select_PuzzleTemplates_def Let_def
        split: list.splits)
qed

lemma primary_keys_completePuzzleSession:
  assumes "primary_keys d"
  shows "primary_keys (snd (completePuzzleSession e input ctx d))"
proof (cases "requireUser ctx")
  case (Inl err)
  with assms show ?thesis by (simp add: completePuzzleSession_def)
next
  case (Inr user)
  with assms show ?thesis
    by (simp add: completePuzzleSession_def select_PuzzleSessions_def primary_keys_issue
        primary_keys_update_PuzzleSessions split: list.splits)
qed

lemma primary_keys_recordPuzzleAttempt:
  assumes "primary_keys d"
  shows "primary_keys (snd (recordPuzzleAttempt e input ctx d))"
proof (cases "requireUser ctx")
  case (Inl err)
  with assms show ?thesis by (simp add: recordPuzzleAttempt_def)
next
  case (Inr user)
  let ?d = "issue (SELECT PuzzleSessionsTable) d"
  from assms have read: "primary_keys ?d"
    by (simp add: primary_keys_issue)
  have "primary_keys (snd (case insert_PuzzleAttempts row ?d of
            (Inl err, d'') \<Rightarrow> (Inl err, d'')
          | (Inr x, d'') \<Rightarrow> (Inr (f x), d'')))" for row and f :: "unit \<Rightarrow> id_data action_result"
  proof -
    obtain r d' where ins: "insert_PuzzleAttempts row ?d = (r, d')"
      by (cases "insert_PuzzleAttempts row ?d")
    with primary_keys_insert_PuzzleAttempts [OF read, of row] have "primary_keys d'"
      by simp
    with ins show ?thesis by (cases r) simp_all
  qed
  with Inr read show ?thesis
    by (simp add: recordPuzzleAttempt_def select_PuzzleSessions_def Let_def
        split: list.splits)
qed

lemma primary_keys_listPuzzleSessions:
  assumes "primary_keys d"
  shows "primary_keys (snd (listPuzzleSessions input ctx d))"
proof (cases "requireUser ctx")
  case (Inl err)
  with assms show ?thesis by (simp add: listPuzzleSessions_def)
next
  case (Inr user)
  with assms show ?thesis
    by (simp add: listPuzzleSessions_def select_PuzzleSessions_page_def primary_keys_issue
        Let_def split: option.splits)
qed

end
